theory Spec2Isabelle
  imports Main
begin

section \<open>The Redis service of the YugaByte server: data model\<close>

text \<open>
  The development embeds \<^verbatim>\<open>redis_service.cc\<close> (the dispatcher, the read and write
  pipelines and their completion callbacks) and the Redis operations of \<^verbatim>\<open>yb_op.cc\<close>.
  A function of the service returns the calls it makes on its collaborators (the backend
  client, the sessions, the RPC context, the log) as a list of events, in program order.
  A failed \<^verbatim>\<open>CHECK\<close>, a failed \<^verbatim>\<open>assert\<close> and a read through a null or out-of-range
  reference end the process: they are the \<open>Inl\<close> results.
\<close>

type_synonym Slice = string

text \<open>\<^verbatim>\<open>Status\<close>: OK, or a code with a message (\<^verbatim>\<open>STATUS(RuntimeError, msg)\<close>).\<close>

datatype Status = OK | STATUS string string

fun ok :: "Status \<Rightarrow> bool" where
  "ok OK = True"
| "ok (STATUS code msg) = False"

fun message :: "Status \<Rightarrow> string" where
  "message OK = []"
| "message (STATUS code msg) = msg"

datatype fatal =
    CheckFailed string
  | AssertFailed string
  | NullPointer string
  | OutOfRange string

text \<open>A histogram is known by the metric prototype it was instantiated from.\<close>

datatype Histogram = METRIC string

record RpcMethodMetrics =
  handler_latency :: "Histogram option"

record RedisClientCommand =
  cmd_args :: "Slice list"

record InboundCall =
  call_id :: nat
  client_command :: RedisClientCommand

text \<open>
  The fields of \<^verbatim>\<open>RedisResponsePB\<close> this code writes; \<^verbatim>\<open>new RedisResponsePB()\<close>
  has none of them set.
\<close>

record RedisResponsePB =
  string_response :: "string option"

definition RedisResponsePB_new :: RedisResponsePB where
  "RedisResponsePB_new = \<lparr>string_response = None\<rparr>"

text \<open>The request messages are filled by the parsers only; their content is a list of fields.\<close>

datatype RedisReadRequestPB = RedisReadRequestPB "Slice list"
datatype RedisWriteRequestPB = RedisWriteRequestPB "Slice list"

datatype YBClient = YBClient string
datatype YBTable = YBTable string
datatype YBSession = YBSession bool
datatype FlushMode = AUTO_FLUSH_SYNC | AUTO_FLUSH_BACKGROUND | MANUAL_FLUSH
datatype YBError = YBError (status: Status)

subsection \<open>The Redis operations of \<^verbatim>\<open>yb_op.cc\<close>\<close>

text \<open>
  \<^verbatim>\<open>redis_response_\<close> is a \<^verbatim>\<open>unique_ptr<RedisResponsePB>\<close>: \<open>None\<close> is the null
  pointer, \<open>Some a\<close> owns the object at address \<open>a\<close> of the store of response objects.
  The store is a list, an address is an index, and \<^verbatim>\<open>new\<close> appends.
\<close>

type_synonym addr = nat
type_synonym response_store = "RedisResponsePB list"

record YBRedisReadOp =
  read_table :: YBTable
  redis_read_request :: RedisReadRequestPB
  read_redis_response :: "addr option"

record YBRedisWriteOp =
  write_table :: YBTable
  redis_write_request :: RedisWriteRequestPB
  write_redis_response :: "addr option"

definition YBRedisReadOp_new :: "YBTable \<Rightarrow> YBRedisReadOp" where
  "YBRedisReadOp_new t =
     \<lparr>read_table = t, redis_read_request = RedisReadRequestPB [],
      read_redis_response = None\<rparr>"

definition YBRedisWriteOp_new :: "YBTable \<Rightarrow> YBRedisWriteOp" where
  "YBRedisWriteOp_new t =
     \<lparr>write_table = t, redis_write_request = RedisWriteRequestPB [],
      write_redis_response = None\<rparr>"

text \<open>
  \<^verbatim>\<open>RedisResponsePB* YBRedisReadOp::mutable_response()\<close>: the result is the pointer
  returned, the store and the operation afterwards.
\<close>

definition YBRedisReadOp_mutable_response ::
  "response_store \<Rightarrow> YBRedisReadOp \<Rightarrow> addr option \<times> response_store \<times> YBRedisReadOp" where
  "YBRedisReadOp_mutable_response h op =
     (case read_redis_response op of
        None \<Rightarrow>
          (let h' = h @ [RedisResponsePB_new];
               op' = op\<lparr>read_redis_response := Some (length h)\<rparr>
           in (read_redis_response op', h', op'))
      | Some a \<Rightarrow> (read_redis_response op, h, op))"

definition YBRedisWriteOp_mutable_response ::
  "response_store \<Rightarrow> YBRedisWriteOp \<Rightarrow> addr option \<times> response_store \<times> YBRedisWriteOp" where
  "YBRedisWriteOp_mutable_response h op =
     (case write_redis_response op of
        None \<Rightarrow>
          (let h' = h @ [RedisResponsePB_new];
               op' = op\<lparr>write_redis_response := Some (length h)\<rparr>
           in (write_redis_response op', h', op'))
      | Some a \<Rightarrow> (write_redis_response op, h, op))"

text \<open>
  \<^verbatim>\<open>const RedisResponsePB& YBRedisReadOp::response() const\<close>, with its
  \<^verbatim>\<open>assert(redis_response_ != nullptr)\<close>. An owning pointer outside the store does not
  occur; the model makes it a failure rather than an unspecified read.
\<close>

definition YBRedisReadOp_response ::
  "response_store \<Rightarrow> YBRedisReadOp \<Rightarrow> fatal + RedisResponsePB" where
  "YBRedisReadOp_response h op =
     (case read_redis_response op of
        None \<Rightarrow> Inl (AssertFailed ''redis_response != nullptr'')
      | Some a \<Rightarrow> if a < length h then Inr (h ! a) else Inl (OutOfRange ''redis_response''))"

text \<open>
  Modelled from the spec: \<^verbatim>\<open>YBRedisWriteOp::response()\<close> is declared in
  \<^verbatim>\<open>yb_op.h\<close>, which is not among the sources; the completion reads the operation's
  response payload through it. It dereferences the response slot.
\<close>

definition YBRedisWriteOp_response ::
  "response_store \<Rightarrow> YBRedisWriteOp \<Rightarrow> fatal + RedisResponsePB" where
  "YBRedisWriteOp_response h op =
     (case write_redis_response op of
        None \<Rightarrow> Inl (NullPointer ''redis_response'')
      | Some a \<Rightarrow> if a < length h then Inr (h ! a) else Inl (OutOfRange ''redis_response''))"


section \<open>The service\<close>

subsection \<open>The command table and the service object\<close>

text \<open>
  The member functions a \<^verbatim>\<open>RedisCommandInfo\<close> can point to, and the table entry itself.
  \<^verbatim>\<open>kRedisCommandTable\<close> and \<^verbatim>\<open>kMethodCount\<close> are declared in
  \<^verbatim>\<open>redis_service.h\<close>, which is not among the sources: they are parameters of
  \<open>PopulateHandlers\<close>. The arity is a C++ \<^verbatim>\<open>int\<close>; the two comparisons of
  \<open>ValidateAndHandle\<close> convert it to \<^verbatim>\<open>size_t\<close> only after its sign has been tested,
  so they are comparisons of the mathematical values (for every arity but the least
  \<^verbatim>\<open>int\<close>, which \<^verbatim>\<open>-1 * arity\<close> cannot negate and no table of commands holds).
\<close>

datatype handler =
    GetCommandPtr | HGetCommandPtr | StrLenCommandPtr | ExistsCommandPtr | GetRangeCommandPtr
  | SetCommandPtr | HSetCommandPtr | GetSetCommandPtr | AppendCommandPtr | DelCommandPtr
  | SetRangeCommandPtr | IncrCommandPtr | EchoCommandPtr

record RedisCommandInfo =
  name :: string
  function_ptr :: handler
  arity :: int

text \<open>
  \<^verbatim>\<open>metrics_\<close> is a \<^verbatim>\<open>std::map\<close> read with \<^verbatim>\<open>operator[]\<close> only, which gives a
  default-constructed \<^verbatim>\<open>RpcMethodMetrics\<close> (a null histogram) for a key that was never
  assigned: a total function.
\<close>

record RedisServiceImpl =
  yb_tier_master_addresses :: string
  yb_client_initialized :: bool
  client :: "YBClient option"
  table :: "YBTable option"
  command_name_to_info_map :: "string \<rightharpoonup> RedisCommandInfo"
  metrics :: "string \<Rightarrow> RpcMethodMetrics"

text \<open>The completion objects. The session is a \<^verbatim>\<open>shared_ptr\<close> and may be null.\<close>

record ReadCommandCb =
  read_session :: "YBSession option"
  read_redis_call :: InboundCall
  read_op :: YBRedisReadOp
  read_metrics :: RpcMethodMetrics
  read_metrics_internal :: RpcMethodMetrics
  read_start :: int

record WriteCommandCb =
  write_session :: "YBSession option"
  write_redis_call :: InboundCall
  write_op :: YBRedisWriteOp
  write_metrics :: RpcMethodMetrics
  write_metrics_internal :: RpcMethodMetrics
  write_start :: int

text \<open>The calls the service makes on its collaborators.\<close>

datatype event =
    MutexLock
  | MutexUnlock
  | BuildClient string
  | OpenTable string
  | LogError string
  | LogWarning string
  | NewSession bool
  | SetTimeoutMillis YBSession int
  | SetFlushMode YBSession FlushMode
  | NewRedisRead
  | NewRedisWrite
  | ReadAsync YBSession YBRedisReadOp ReadCommandCb
  | Apply YBSession YBRedisWriteOp
  | FlushAsync YBSession WriteCommandCb
  | GetPendingErrors YBSession
  | Increment Histogram int
  | RespondSuccess InboundCall RedisResponsePB RpcMethodMetrics
  | RespondFailure InboundCall Status RpcMethodMetrics

text \<open>
  What the collaborators answer while one function of the service runs: the clock, the
  configuration flag, the statuses the backend client and the session return, the errors a
  session has buffered, and the parsers of \<^verbatim>\<open>redis_parser.h\<close>. None of them is among
  the sources.
\<close>

record env =
  env_ToString :: "Status \<Rightarrow> string"
  env_Now :: int
  FLAGS_redis_service_yb_client_timeout_millis :: int
  kRedisTableName :: string
  env_Build :: "string \<Rightarrow> Status"
  env_OpenTable :: "string \<Rightarrow> Status"
  env_SetFlushMode :: "YBSession \<Rightarrow> FlushMode \<Rightarrow> Status"
  env_Apply :: "YBSession \<Rightarrow> YBRedisWriteOp \<Rightarrow> Status"
  env_GetPendingErrors :: "YBSession \<Rightarrow> YBError list \<times> bool"
  ParseGet :: "YBRedisReadOp \<Rightarrow> Slice list \<Rightarrow> Status \<times> YBRedisReadOp"
  ParseHGet :: "YBRedisReadOp \<Rightarrow> Slice list \<Rightarrow> Status \<times> YBRedisReadOp"
  ParseStrLen :: "YBRedisReadOp \<Rightarrow> Slice list \<Rightarrow> Status \<times> YBRedisReadOp"
  ParseExists :: "YBRedisReadOp \<Rightarrow> Slice list \<Rightarrow> Status \<times> YBRedisReadOp"
  ParseGetRange :: "YBRedisReadOp \<Rightarrow> Slice list \<Rightarrow> Status \<times> YBRedisReadOp"
  ParseSet :: "YBRedisWriteOp \<Rightarrow> Slice list \<Rightarrow> Status \<times> YBRedisWriteOp"
  ParseHSet :: "YBRedisWriteOp \<Rightarrow> Slice list \<Rightarrow> Status \<times> YBRedisWriteOp"
  ParseGetSet :: "YBRedisWriteOp \<Rightarrow> Slice list \<Rightarrow> Status \<times> YBRedisWriteOp"
  ParseAppend :: "YBRedisWriteOp \<Rightarrow> Slice list \<Rightarrow> Status \<times> YBRedisWriteOp"
  ParseDel :: "YBRedisWriteOp \<Rightarrow> Slice list \<Rightarrow> Status \<times> YBRedisWriteOp"
  ParseSetRange :: "YBRedisWriteOp \<Rightarrow> Slice list \<Rightarrow> Status \<times> YBRedisWriteOp"
  ParseIncr :: "YBRedisWriteOp \<Rightarrow> Slice list \<Rightarrow> Status \<times> YBRedisWriteOp"

text \<open>The events so far, then the rest of the function.\<close>

definition after :: "event list \<Rightarrow> fatal + event list \<Rightarrow> fatal + event list" where
  "after evs r = (case r of Inl f \<Rightarrow> Inl f | Inr evs' \<Rightarrow> Inr (evs @ evs'))"

subsection \<open>\<^verbatim>\<open>PopulateHandlers\<close>\<close>

text \<open>
  \<^verbatim>\<open>METRIC_handler_latency_yb_redisserver_RedisServerService_##method.Instantiate(...)\<close>:
  the histogram of the prototype declared for \<open>method\<close> at the head of the file.
\<close>

definition Instantiate :: "string \<Rightarrow> Histogram" where
  "Instantiate method = METRIC (''handler_latency_yb_redisserver_RedisServerService_'' @ method)"

text \<open>
  \<^verbatim>\<open>SETUP_METRICS_FOR_METHOD(method, idx)\<close>: the \<^verbatim>\<open>CHECK_EQ\<close> on the name of the table
  entry, then the two map assignments.
\<close>

definition SETUP_METRICS_FOR_METHOD ::
  "RedisCommandInfo list \<Rightarrow> string \<Rightarrow> nat \<Rightarrow> RedisServiceImpl \<Rightarrow> fatal + RedisServiceImpl" where
  "SETUP_METRICS_FOR_METHOD tbl method idx s =
     (if \<not> idx < length tbl then Inl (OutOfRange ''kRedisCommandTable[idx]'')
      else if method \<noteq> name (tbl ! idx) then Inl (CheckFailed (''Expected command '' @ method))
      else Inr (s\<lparr>command_name_to_info_map := (command_name_to_info_map s)(method \<mapsto> tbl ! idx),
                  metrics := (metrics s)(method := \<lparr>handler_latency = Some (Instantiate method)\<rparr>)\<rparr>))"

text \<open>The thirteen expansions of the macro, each followed by \<^verbatim>\<open>idx++\<close>.\<close>

fun setup_methods ::
  "RedisCommandInfo list \<Rightarrow> string list \<Rightarrow> nat \<Rightarrow> RedisServiceImpl \<Rightarrow> fatal + RedisServiceImpl" where
  "setup_methods tbl [] idx s = Inr s"
| "setup_methods tbl (method # rest) idx s =
     (case SETUP_METRICS_FOR_METHOD tbl method idx s of
        Inl f \<Rightarrow> Inl f
      | Inr s' \<Rightarrow> setup_methods tbl rest (idx + 1) s')"

definition method_names :: "string list" where
  "method_names =
     [''get'', ''hget'', ''strlen'', ''exists'', ''getrange'', ''set'', ''hset'', ''getset'',
      ''append'', ''del'', ''setrange'', ''incr'', ''echo'']"

definition PopulateHandlers ::
  "nat \<Rightarrow> RedisCommandInfo list \<Rightarrow> RedisServiceImpl \<Rightarrow> fatal + RedisServiceImpl" where
  "PopulateHandlers kMethodCount tbl s =
     (if kMethodCount \<noteq> length tbl then Inl (CheckFailed ''kMethodCount elements in kRedisCommandTable'')
      else case setup_methods tbl method_names 0 s of
        Inl f \<Rightarrow> Inl f
      | Inr s' \<Rightarrow>
          if kMethodCount \<noteq> length method_names then Inl (CheckFailed ''kMethodCount == idx'')
          else Inr (s'\<lparr>metrics := (metrics s')
                 (''error'' := \<lparr>handler_latency = Some (Instantiate ''error'')\<rparr>,
                  ''get_internal'' := \<lparr>handler_latency = Some (Instantiate ''get_internal'')\<rparr>,
                  ''set_internal'' := \<lparr>handler_latency = Some (Instantiate ''set_internal'')\<rparr>)\<rparr>))"

text \<open>The constructor: the flag is unset, nothing is connected, the handlers are populated.\<close>

definition RedisServiceImpl_new ::
  "nat \<Rightarrow> RedisCommandInfo list \<Rightarrow> string \<Rightarrow> fatal + RedisServiceImpl" where
  "RedisServiceImpl_new kMethodCount tbl addresses =
     PopulateHandlers kMethodCount tbl
       \<lparr>yb_tier_master_addresses = addresses, yb_client_initialized = False,
        client = None, table = None, command_name_to_info_map = Map.empty,
        metrics = (\<lambda>k. \<lparr>handler_latency = None\<rparr>)\<rparr>"

subsection \<open>\<^verbatim>\<open>FetchHandler\<close>\<close>

text \<open>
  Modelled from the spec: \<^verbatim>\<open>ToLowerCase\<close> is a helper of the utility library, not among
  the sources; it lower-cases the name: the letters A to Z of ASCII are mapped to a to z,
  every other byte is kept.
\<close>

definition ascii_tolower :: "char \<Rightarrow> char" where
  "ascii_tolower ch =
     (if 65 \<le> (of_char ch :: nat) \<and> (of_char ch :: nat) \<le> 90
      then char_of ((of_char ch :: nat) + 32) else ch)"

definition ToLowerCase :: "string \<Rightarrow> string" where
  "ToLowerCase str = map ascii_tolower str"

definition FetchHandler ::
  "RedisServiceImpl \<Rightarrow> Slice list \<Rightarrow> fatal + (event list \<times> RedisCommandInfo option)" where
  "FetchHandler s args =
     (if \<not> 1 \<le> length args
      then Inl (CheckFailed ''Need to have at least the command name in the argument vector.'')
      else let cmd_name = ToLowerCase (args ! 0) in
        case command_name_to_info_map s cmd_name of
          None \<Rightarrow> Inr ([LogError (''Command '' @ cmd_name @ '' not yet supported.'')], None)
        | Some info \<Rightarrow> Inr ([], Some info))"


subsection \<open>\<^verbatim>\<open>RespondWithFailure\<close> and \<^verbatim>\<open>SetUpYBClient\<close>\<close>

text \<open>\<^verbatim>\<open>%s\<close> prints a \<^verbatim>\<open>c_str()\<close> up to its first NUL byte.\<close>

definition c_str :: "string \<Rightarrow> string" where
  "c_str str = takeWhile (\<lambda>ch. ch \<noteq> CHR 0x00) str"

definition RespondWithFailure ::
  "RedisServiceImpl \<Rightarrow> string \<Rightarrow> InboundCall \<Rightarrow> RedisClientCommand \<Rightarrow> fatal + event list" where
  "RespondWithFailure s error call c =
     (case cmd_args c of
        [] \<Rightarrow> Inl (OutOfRange ''cmd_args[0]'')
      | cmd # rest \<Rightarrow>
          Inr [RespondFailure call
                 (STATUS ''RuntimeError'' (c_str error @ '' : '' @ c_str cmd))
                 (metrics s ''error'')])"

text \<open>
  \<^verbatim>\<open>SetUpYBClient\<close> holds \<^verbatim>\<open>yb_mutex_\<close> from its first statement to its return; each
  \<^verbatim>\<open>RETURN_NOT_OK\<close> returns the status it got. The builder is configured with the
  client name, the RPC timeout, the master addresses and the metric entity; \<open>BuildClient\<close>
  is its \<^verbatim>\<open>Build\<close>, and a build or an open that fails leaves the pointer it was given
  as it was.
\<close>

definition SetUpYBClient ::
  "env \<Rightarrow> RedisServiceImpl \<Rightarrow> string \<Rightarrow> Status \<times> event list \<times> RedisServiceImpl" where
  "SetUpYBClient e s addresses =
     (if \<not> yb_client_initialized s then
        (let st_build = env_Build e addresses in
         if \<not> ok st_build then (st_build, [MutexLock, BuildClient addresses, MutexUnlock], s)
         else
           let s1 = s\<lparr>client := Some (YBClient addresses)\<rparr>;
               st_open = env_OpenTable e (kRedisTableName e) in
           if \<not> ok st_open
           then (st_open,
                 [MutexLock, BuildClient addresses, OpenTable (kRedisTableName e), MutexUnlock], s1)
           else (OK,
                 [MutexLock, BuildClient addresses, OpenTable (kRedisTableName e), MutexUnlock],
                 s1\<lparr>table := Some (YBTable (kRedisTableName e)), yb_client_initialized := True\<rparr>))
      else (OK, [MutexLock, MutexUnlock], s))"

definition ConfigureSession :: "env \<Rightarrow> YBSession \<Rightarrow> event list" where
  "ConfigureSession e session =
     [SetTimeoutMillis session (FLAGS_redis_service_yb_client_timeout_millis e)]"

subsection \<open>The handlers and the completion callbacks\<close>

definition EchoCommand ::
  "RedisServiceImpl \<Rightarrow> InboundCall \<Rightarrow> RedisClientCommand \<Rightarrow> fatal + event list" where
  "EchoCommand s call c =
     (if \<not> 1 < length (cmd_args c) then Inl (OutOfRange ''cmd_args[1]'')
      else Inr [RespondSuccess call
                  (RedisResponsePB_new\<lparr>string_response := Some (cmd_args c ! 1)\<rparr>)
                  (metrics s ''echo'')])"

text \<open>
  \<^verbatim>\<open>ReadCommandCb::Run\<close>, on the store and the state of the operation at the time the
  backend calls it. The callback deletes itself: nothing of it is returned.
\<close>

definition ReadCommandCb_Run ::
  "env \<Rightarrow> response_store \<Rightarrow> ReadCommandCb \<Rightarrow> Status \<Rightarrow> fatal + event list" where
  "ReadCommandCb_Run e h cb st =
     (case handler_latency (read_metrics_internal cb) of
        None \<Rightarrow> Inl (NullPointer ''handler_latency'')
      | Some hist \<Rightarrow>
          after [Increment hist (env_Now e - read_start cb)]
            (if ok st then
               (case YBRedisReadOp_response h (read_op cb) of
                  Inl f \<Rightarrow> Inl f
                | Inr r \<Rightarrow> Inr [RespondSuccess (read_redis_call cb) r (read_metrics cb)])
             else Inr [RespondFailure (read_redis_call cb) st (read_metrics cb)]))"

definition ReadCommand ::
  "env \<Rightarrow> RedisServiceImpl \<Rightarrow> InboundCall \<Rightarrow> RedisClientCommand \<Rightarrow> string \<Rightarrow>
   (YBRedisReadOp \<Rightarrow> Slice list \<Rightarrow> Status \<times> YBRedisReadOp) \<Rightarrow> fatal + event list" where
  "ReadCommand e s call c command_name parse =
     (case client s of
        None \<Rightarrow> Inl (NullPointer ''client'')
      | Some cl \<Rightarrow>
          let read_only_session = YBSession True in
          after (NewSession True # ConfigureSession e read_only_session
                  @ [SetFlushMode read_only_session MANUAL_FLUSH])
            (if \<not> ok (env_SetFlushMode e read_only_session MANUAL_FLUSH)
             then Inl (CheckFailed ''SetFlushMode'')
             else case table s of
               None \<Rightarrow> Inl (NullPointer ''table'')
             | Some t \<Rightarrow>
                 after [NewRedisRead]
                   (case parse (YBRedisReadOp_new t) (cmd_args c) of
                      (st, rop) \<Rightarrow>
                        if \<not> ok st then RespondWithFailure s (message st) call c
                        else Inr [ReadAsync read_only_session rop
                               \<lparr>read_session = Some read_only_session, read_redis_call = call,
                                read_op = rop, read_metrics = metrics s command_name,
                                read_metrics_internal = metrics s ''get_internal'',
                                read_start = env_Now e\<rparr>])))"

definition GetCommand ::
  "env \<Rightarrow> RedisServiceImpl \<Rightarrow> InboundCall \<Rightarrow> RedisClientCommand \<Rightarrow> fatal + event list" where
  "GetCommand e s call c = ReadCommand e s call c ''get'' (ParseGet e)"

definition HGetCommand ::
  "env \<Rightarrow> RedisServiceImpl \<Rightarrow> InboundCall \<Rightarrow> RedisClientCommand \<Rightarrow> fatal + event list" where
  "HGetCommand e s call c = ReadCommand e s call c ''hget'' (ParseHGet e)"

definition StrLenCommand ::
  "env \<Rightarrow> RedisServiceImpl \<Rightarrow> InboundCall \<Rightarrow> RedisClientCommand \<Rightarrow> fatal + event list" where
  "StrLenCommand e s call c = ReadCommand e s call c ''strlen'' (ParseStrLen e)"

definition ExistsCommand ::
  "env \<Rightarrow> RedisServiceImpl \<Rightarrow> InboundCall \<Rightarrow> RedisClientCommand \<Rightarrow> fatal + event list" where
  "ExistsCommand e s call c = ReadCommand e s call c ''exists'' (ParseExists e)"

definition GetRangeCommand ::
  "env \<Rightarrow> RedisServiceImpl \<Rightarrow> InboundCall \<Rightarrow> RedisClientCommand \<Rightarrow> fatal + event list" where
  "GetRangeCommand e s call c = ReadCommand e s call c ''exists'' (ParseGetRange e)"

text \<open>
  \<^verbatim>\<open>WriteCommandCb::Run\<close>. \<^verbatim>\<open>GetPendingErrors\<close> hands over the errors the session has
  buffered and the overflow flag; the flag is not read afterwards.
\<close>

definition WriteCommandCb_Run ::
  "env \<Rightarrow> response_store \<Rightarrow> WriteCommandCb \<Rightarrow> Status \<Rightarrow> fatal + event list" where
  "WriteCommandCb_Run e h cb st =
     (case handler_latency (write_metrics_internal cb) of
        None \<Rightarrow> Inl (NullPointer ''handler_latency'')
      | Some hist \<Rightarrow>
          after [Increment hist (env_Now e - write_start cb)]
            (if ok st then
               (case YBRedisWriteOp_response h (write_op cb) of
                  Inl f \<Rightarrow> Inl f
                | Inr r \<Rightarrow> Inr [RespondSuccess (write_redis_call cb) r (write_metrics cb)])
             else
               Inr ((case write_session cb of
                       None \<Rightarrow> []
                     | Some session \<Rightarrow>
                         (case env_GetPendingErrors e session of
                            (errors, overflowed) \<Rightarrow>
                              GetPendingErrors session
                              # map (\<lambda>error. LogWarning (''Explicit error while inserting: ''
                                       @ env_ToString e (status error))) errors))
                    @ [RespondFailure (write_redis_call cb) st (write_metrics cb)])))"

definition WriteCommand ::
  "env \<Rightarrow> RedisServiceImpl \<Rightarrow> InboundCall \<Rightarrow> RedisClientCommand \<Rightarrow> string \<Rightarrow>
   (YBRedisWriteOp \<Rightarrow> Slice list \<Rightarrow> Status \<times> YBRedisWriteOp) \<Rightarrow> fatal + event list" where
  "WriteCommand e s call c command_name parse =
     (case client s of
        None \<Rightarrow> Inl (NullPointer ''client'')
      | Some cl \<Rightarrow>
          let tmp_session = YBSession False in
          after (NewSession False # ConfigureSession e tmp_session
                  @ [SetFlushMode tmp_session MANUAL_FLUSH])
            (if \<not> ok (env_SetFlushMode e tmp_session MANUAL_FLUSH)
             then Inl (CheckFailed ''SetFlushMode'')
             else case table s of
               None \<Rightarrow> Inl (NullPointer ''table'')
             | Some t \<Rightarrow>
                 after [NewRedisWrite]
                   (case parse (YBRedisWriteOp_new t) (cmd_args c) of
                      (st, wop) \<Rightarrow>
                        if \<not> ok st then RespondWithFailure s (message st) call c
                        else
                          after [Apply tmp_session wop]
                            (if \<not> ok (env_Apply e tmp_session wop) then Inl (CheckFailed ''Apply'')
                             else Inr [FlushAsync tmp_session
                               \<lparr>write_session = Some tmp_session, write_redis_call = call,
                                write_op = wop, write_metrics = metrics s command_name,
                                write_metrics_internal = metrics s ''set_internal'',
                                write_start = env_Now e\<rparr>]))))"

definition SetCommand ::
  "env \<Rightarrow> RedisServiceImpl \<Rightarrow> InboundCall \<Rightarrow> RedisClientCommand \<Rightarrow> fatal + event list" where
  "SetCommand e s call c = WriteCommand e s call c ''set'' (ParseSet e)"

definition HSetCommand ::
  "env \<Rightarrow> RedisServiceImpl \<Rightarrow> InboundCall \<Rightarrow> RedisClientCommand \<Rightarrow> fatal + event list" where
  "HSetCommand e s call c = WriteCommand e s call c ''hset'' (ParseHSet e)"

definition GetSetCommand ::
  "env \<Rightarrow> RedisServiceImpl \<Rightarrow> InboundCall \<Rightarrow> RedisClientCommand \<Rightarrow> fatal + event list" where
  "GetSetCommand e s call c = WriteCommand e s call c ''getset'' (ParseGetSet e)"

definition AppendCommand ::
  "env \<Rightarrow> RedisServiceImpl \<Rightarrow> InboundCall \<Rightarrow> RedisClientCommand \<Rightarrow> fatal + event list" where
  "AppendCommand e s call c = WriteCommand e s call c ''append'' (ParseAppend e)"

definition DelCommand ::
  "env \<Rightarrow> RedisServiceImpl \<Rightarrow> InboundCall \<Rightarrow> RedisClientCommand \<Rightarrow> fatal + event list" where
  "DelCommand e s call c = WriteCommand e s call c ''del'' (ParseDel e)"

definition SetRangeCommand ::
  "env \<Rightarrow> RedisServiceImpl \<Rightarrow> InboundCall \<Rightarrow> RedisClientCommand \<Rightarrow> fatal + event list" where
  "SetRangeCommand e s call c = WriteCommand e s call c ''setrange'' (ParseSetRange e)"

definition IncrCommand ::
  "env \<Rightarrow> RedisServiceImpl \<Rightarrow> InboundCall \<Rightarrow> RedisClientCommand \<Rightarrow> fatal + event list" where
  "IncrCommand e s call c = WriteCommand e s call c ''incr'' (ParseIncr e)"

subsection \<open>The dispatcher\<close>

text \<open>\<^verbatim>\<open>(this->*cmd_info->function_ptr)(call, c)\<close>.\<close>

fun invoke ::
  "handler \<Rightarrow> env \<Rightarrow> RedisServiceImpl \<Rightarrow> InboundCall \<Rightarrow> RedisClientCommand \<Rightarrow> fatal + event list" where
  "invoke GetCommandPtr e s call c = GetCommand e s call c"
| "invoke HGetCommandPtr e s call c = HGetCommand e s call c"
| "invoke StrLenCommandPtr e s call c = StrLenCommand e s call c"
| "invoke ExistsCommandPtr e s call c = ExistsCommand e s call c"
| "invoke GetRangeCommandPtr e s call c = GetRangeCommand e s call c"
| "invoke SetCommandPtr e s call c = SetCommand e s call c"
| "invoke HSetCommandPtr e s call c = HSetCommand e s call c"
| "invoke GetSetCommandPtr e s call c = GetSetCommand e s call c"
| "invoke AppendCommandPtr e s call c = AppendCommand e s call c"
| "invoke DelCommandPtr e s call c = DelCommand e s call c"
| "invoke SetRangeCommandPtr e s call c = SetRangeCommand e s call c"
| "invoke IncrCommandPtr e s call c = IncrCommand e s call c"
| "invoke EchoCommandPtr e s call c = EchoCommand s call c"

text \<open>
  The second half of \<^verbatim>\<open>ValidateAndHandle\<close>, from the comment
  \<^verbatim>\<open>// Handle the current redis command.\<close> on. The two \<^verbatim>\<open>LOG(ERROR)\<close> lines print
  \<^verbatim>\<open>c->cmd_args[0]\<close>.
\<close>

definition HandleCurrentCommand ::
  "env \<Rightarrow> RedisServiceImpl \<Rightarrow> RedisCommandInfo option \<Rightarrow> InboundCall \<Rightarrow> RedisClientCommand
   \<Rightarrow> fatal + event list" where
  "HandleCurrentCommand e s cmd_info call c =
     (case cmd_info of
        None \<Rightarrow> RespondWithFailure s ''Unsupported call.'' call c
      | Some info \<Rightarrow>
          if arity info < 0 \<and> int (length (cmd_args c)) < - 1 * arity info then
            (case cmd_args c of
               [] \<Rightarrow> Inl (OutOfRange ''cmd_args[0]'')
             | cmd # rest \<Rightarrow>
                 after [LogError (''Requested command '' @ cmd
                                   @ '' does not have enough arguments.'')]
                   (RespondWithFailure s ''Too few arguments.'' call c))
          else if arity info > 0 \<and> int (length (cmd_args c)) \<noteq> arity info then
            (case cmd_args c of
               [] \<Rightarrow> Inl (OutOfRange ''cmd_args[0]'')
             | cmd # rest \<Rightarrow>
                 after [LogError (''Requested command '' @ cmd
                                   @ '' has wrong number of arguments.'')]
                   (RespondWithFailure s ''Wrong number of arguments.'' call c))
          else invoke (function_ptr info) e s call c)"

definition ValidateAndHandle ::
  "env \<Rightarrow> RedisServiceImpl \<Rightarrow> RedisCommandInfo option \<Rightarrow> InboundCall \<Rightarrow> RedisClientCommand
   \<Rightarrow> fatal + (event list \<times> RedisServiceImpl)" where
  "ValidateAndHandle e s cmd_info call c =
     (if \<not> yb_client_initialized s then
        (case SetUpYBClient e s (yb_tier_master_addresses s) of
           (st, evs, s') \<Rightarrow>
             if \<not> ok st then
               (case RespondWithFailure s'
                       (''Could not open .redis table. '' @ env_ToString e st) call c of
                  Inl f \<Rightarrow> Inl f
                | Inr evs' \<Rightarrow> Inr (evs @ evs', s'))
             else
               (case HandleCurrentCommand e s' cmd_info call c of
                  Inl f \<Rightarrow> Inl f
                | Inr evs' \<Rightarrow> Inr (evs @ evs', s')))
      else
        (case HandleCurrentCommand e s cmd_info call c of
           Inl f \<Rightarrow> Inl f
         | Inr evs' \<Rightarrow> Inr (evs', s)))"

text \<open>\<^verbatim>\<open>Handle\<close>: \<^verbatim>\<open>CHECK_NOTNULL\<close> on the call, then resolve and dispatch.\<close>

definition Handle ::
  "env \<Rightarrow> RedisServiceImpl \<Rightarrow> InboundCall option \<Rightarrow> fatal + (event list \<times> RedisServiceImpl)" where
  "Handle e s inbound_call =
     (case inbound_call of
        None \<Rightarrow> Inl (CheckFailed ''inbound_call'')
      | Some call \<Rightarrow>
          (let c = client_command call in
           (case FetchHandler s (cmd_args c) of
              Inl f \<Rightarrow> Inl f
            | Inr (evs, cmd_info) \<Rightarrow>
                (case ValidateAndHandle e s cmd_info call c of
                   Inl f \<Rightarrow> Inl f
                 | Inr (evs', s') \<Rightarrow> Inr (evs @ evs', s')))))"


section \<open>Observations on a run\<close>

text \<open>The events that answer the caller, and the events that submit an operation to the backend.\<close>

definition is_response :: "event \<Rightarrow> bool" where
  "is_response ev =
     (case ev of RespondSuccess call r m \<Rightarrow> True | RespondFailure call st m \<Rightarrow> True | _ \<Rightarrow> False)"

definition is_backend_call :: "event \<Rightarrow> bool" where
  "is_backend_call ev =
     (case ev of ReadAsync sess rop cb \<Rightarrow> True | Apply sess wop \<Rightarrow> True
      | FlushAsync sess cb \<Rightarrow> True | _ \<Rightarrow> False)"

text \<open>The events of the one-time initialisation: the mutex, the build and the open.\<close>

definition is_setup_event :: "event \<Rightarrow> bool" where
  "is_setup_event ev =
     (case ev of MutexLock \<Rightarrow> True | MutexUnlock \<Rightarrow> True | BuildClient a \<Rightarrow> True
      | OpenTable n \<Rightarrow> True | _ \<Rightarrow> False)"

section \<open>Names that differ in letter casing only\<close>

text \<open>
  Two bytes are the same letter when they are equal or one is a capital letter of ASCII and
  the other the small letter 32 places after it; two names differ in casing only when they
  have the same length and are the same letter at every position.
\<close>

definition same_letter :: "char \<Rightarrow> char \<Rightarrow> bool" where
  "same_letter a b =
     (a = b
      \<or> (65 \<le> (of_char a :: nat) \<and> (of_char a :: nat) \<le> 90
          \<and> (of_char b :: nat) = of_char a + 32)
      \<or> (65 \<le> (of_char b :: nat) \<and> (of_char b :: nat) \<le> 90
          \<and> (of_char a :: nat) = of_char b + 32))"

definition differs_in_casing_only :: "string \<Rightarrow> string \<Rightarrow> bool" where
  "differs_in_casing_only x y = list_all2 same_letter x y"

section \<open>Concrete inputs\<close>

text \<open>
  A table, an environment, a service and a call on which the theorems below are run. The
  table has the thirteen names in the order \<open>PopulateHandlers\<close> checks; its arities are
  examples of both contracts.
\<close>

definition sample_table :: "RedisCommandInfo list" where
  "sample_table =
     [\<lparr>name = ''get'', function_ptr = GetCommandPtr, arity = 2\<rparr>,
      \<lparr>name = ''hget'', function_ptr = HGetCommandPtr, arity = 3\<rparr>,
      \<lparr>name = ''strlen'', function_ptr = StrLenCommandPtr, arity = 2\<rparr>,
      \<lparr>name = ''exists'', function_ptr = ExistsCommandPtr, arity = 2\<rparr>,
      \<lparr>name = ''getrange'', function_ptr = GetRangeCommandPtr, arity = 4\<rparr>,
      \<lparr>name = ''set'', function_ptr = SetCommandPtr, arity = - 3\<rparr>,
      \<lparr>name = ''hset'', function_ptr = HSetCommandPtr, arity = 4\<rparr>,
      \<lparr>name = ''getset'', function_ptr = GetSetCommandPtr, arity = 3\<rparr>,
      \<lparr>name = ''append'', function_ptr = AppendCommandPtr, arity = 3\<rparr>,
      \<lparr>name = ''del'', function_ptr = DelCommandPtr, arity = 2\<rparr>,
      \<lparr>name = ''setrange'', function_ptr = SetRangeCommandPtr, arity = 4\<rparr>,
      \<lparr>name = ''incr'', function_ptr = IncrCommandPtr, arity = 2\<rparr>,
      \<lparr>name = ''echo'', function_ptr = EchoCommandPtr, arity = 2\<rparr>]"

text \<open>The sample parsers refuse an empty argument and copy the others into the request.\<close>

definition sample_parse_read :: "YBRedisReadOp \<Rightarrow> Slice list \<Rightarrow> Status \<times> YBRedisReadOp" where
  "sample_parse_read rop args =
     (if [] \<in> set args then (STATUS ''InvalidCommand'' ''empty argument'', rop)
      else (OK, rop\<lparr>redis_read_request := RedisReadRequestPB (tl args)\<rparr>))"

definition sample_parse_write :: "YBRedisWriteOp \<Rightarrow> Slice list \<Rightarrow> Status \<times> YBRedisWriteOp" where
  "sample_parse_write wop args =
     (if [] \<in> set args then (STATUS ''InvalidCommand'' ''empty argument'', wop)
      else (OK, wop\<lparr>redis_write_request := RedisWriteRequestPB (tl args)\<rparr>))"

definition sample_ToString :: "Status \<Rightarrow> string" where
  "sample_ToString st = (case st of OK \<Rightarrow> ''OK'' | STATUS code msg \<Rightarrow> code @ '': '' @ msg)"

definition sample_env :: env where
  "sample_env =
     \<lparr>env_ToString = sample_ToString,
      env_Now = 1500,
      FLAGS_redis_service_yb_client_timeout_millis = 60000,
      kRedisTableName = ''.redis'',
      env_Build = (\<lambda>addresses. OK),
      env_OpenTable = (\<lambda>table_name. OK),
      env_SetFlushMode = (\<lambda>session mode. OK),
      env_Apply = (\<lambda>session wop. OK),
      env_GetPendingErrors =
        (\<lambda>session. ([YBError (STATUS ''TimedOut'' ''row 1''),
                      YBError (STATUS ''TimedOut'' ''row 2'')], False)),
      ParseGet = sample_parse_read, ParseHGet = sample_parse_read,
      ParseStrLen = sample_parse_read, ParseExists = sample_parse_read,
      ParseGetRange = sample_parse_read,
      ParseSet = sample_parse_write, ParseHSet = sample_parse_write,
      ParseGetSet = sample_parse_write, ParseAppend = sample_parse_write,
      ParseDel = sample_parse_write, ParseSetRange = sample_parse_write,
      ParseIncr = sample_parse_write\<rparr>"

text \<open>The service object the constructor builds from the sample table.\<close>

definition sample_service :: RedisServiceImpl where
  "sample_service =
     \<lparr>yb_tier_master_addresses = ''127.0.0.1:7100'', yb_client_initialized = False,
      client = None, table = None,
      command_name_to_info_map = map_of (rev (zip method_names sample_table)),
      metrics = (\<lambda>k. if k \<in> set method_names then \<lparr>handler_latency = Some (Instantiate k)\<rparr>
                       else \<lparr>handler_latency = None\<rparr>)
                (''error'' := \<lparr>handler_latency = Some (Instantiate ''error'')\<rparr>,
                 ''get_internal'' := \<lparr>handler_latency = Some (Instantiate ''get_internal'')\<rparr>,
                 ''set_internal'' := \<lparr>handler_latency = Some (Instantiate ''set_internal'')\<rparr>)\<rparr>"

text \<open>The same service once the client has been built and the table opened.\<close>

definition sample_ready :: RedisServiceImpl where
  "sample_ready =
     sample_service\<lparr>client := Some (YBClient ''127.0.0.1:7100''),
                    table := Some (YBTable ''.redis''), yb_client_initialized := True\<rparr>"

definition sample_call :: "Slice list \<Rightarrow> InboundCall" where
  "sample_call args = \<lparr>call_id = 7, client_command = \<lparr>cmd_args = args\<rparr>\<rparr>"

text \<open>
  The completion objects the read and the write pipeline attach for \<^verbatim>\<open>GET k\<close> and
  \<^verbatim>\<open>SET k v\<close> on the sample service, at the time the backend calls them: object 0 of
  the store is the response of the operation.
\<close>

definition sample_read_cb :: ReadCommandCb where
  "sample_read_cb =
     \<lparr>read_session = Some (YBSession True),
      read_redis_call = sample_call [''get'', ''k''],
      read_op = \<lparr>read_table = YBTable ''.redis'',
                 redis_read_request = RedisReadRequestPB [''k''],
                 read_redis_response = Some 0\<rparr>,
      read_metrics = metrics sample_service ''get'',
      read_metrics_internal = metrics sample_service ''get_internal'',
      read_start = 1000\<rparr>"

definition sample_write_cb :: WriteCommandCb where
  "sample_write_cb =
     \<lparr>write_session = Some (YBSession False),
      write_redis_call = sample_call [''set'', ''k'', ''v''],
      write_op = \<lparr>write_table = YBTable ''.redis'',
                  redis_write_request = RedisWriteRequestPB [''k'', ''v''],
                  write_redis_response = Some 0\<rparr>,
      write_metrics = metrics sample_service ''set'',
      write_metrics_internal = metrics sample_service ''set_internal'',
      write_start = 1000\<rparr>"

definition sample_store :: response_store where
  "sample_store = [\<lparr>string_response = Some ''v''\<rparr>]"

section \<open>Properties\<close>

subsection \<open>The response slot of an operation\<close>

lemma funpow_fixed: "f x = x \<Longrightarrow> (f ^^ n) x = x"
  by (induction n) simp_all

lemma read_mutable_response_again:
  assumes "YBRedisReadOp_mutable_response h rop = (p, h', op')"
  shows "YBRedisReadOp_mutable_response h' op' = (p, h', op')"
proof (cases "read_redis_response rop")
  case None
  with assms show ?thesis
    by (auto simp: YBRedisReadOp_mutable_response_def Let_def)
next
  case (Some a)
  with assms have "p = Some a" and "h' = h" and "op' = rop"
    by (auto simp: YBRedisReadOp_mutable_response_def)
  with Some show ?thesis
    by (simp add: YBRedisReadOp_mutable_response_def)
qed

lemma write_mutable_response_again:
  assumes "YBRedisWriteOp_mutable_response h wop = (p, h', op')"
  shows "YBRedisWriteOp_mutable_response h' op' = (p, h', op')"
proof (cases "write_redis_response wop")
  case None
  with assms show ?thesis
    by (auto simp: YBRedisWriteOp_mutable_response_def Let_def)
next
  case (Some a)
  with assms have "p = Some a" and "h' = h" and "op' = wop"
    by (auto simp: YBRedisWriteOp_mutable_response_def)
  with Some show ?thesis
    by (simp add: YBRedisWriteOp_mutable_response_def)
qed

text \<open>
  C9. For \<^verbatim>\<open>YBRedisReadOp\<close> and for \<^verbatim>\<open>YBRedisWriteOp\<close>, \<^verbatim>\<open>mutable_response\<close> never
  returns null and is idempotent. On an empty slot the first call allocates a fresh object
  (the address is the first one past the store, and the store grows by one default
  response); on a filled slot it allocates nothing. Whatever the slot was, any number
  \<open>n\<close> of further calls returns the same pointer and leaves the store and the operation
  as the first call left them.
\<close>

theorem mutable_response_idempotent_never_null:
  "(case YBRedisReadOp_mutable_response h rop of
      (p, h', op') \<Rightarrow>
        p \<noteq> None \<and> p = read_redis_response op'
        \<and> ((\<lambda>(q, k, x). YBRedisReadOp_mutable_response k x) ^^ n) (p, h', op') = (p, h', op')
        \<and> (read_redis_response rop = None \<longrightarrow>
             p = Some (length h) \<and> h' = h @ [RedisResponsePB_new])
        \<and> (read_redis_response rop \<noteq> None \<longrightarrow>
             p = read_redis_response rop \<and> h' = h \<and> op' = rop))
   \<and> (case YBRedisWriteOp_mutable_response h wop of
      (p, h', op') \<Rightarrow>
        p \<noteq> None \<and> p = write_redis_response op'
        \<and> ((\<lambda>(q, k, x). YBRedisWriteOp_mutable_response k x) ^^ n) (p, h', op') = (p, h', op')
        \<and> (write_redis_response wop = None \<longrightarrow>
             p = Some (length h) \<and> h' = h @ [RedisResponsePB_new])
        \<and> (write_redis_response wop \<noteq> None \<longrightarrow>
             p = write_redis_response wop \<and> h' = h \<and> op' = wop))"
proof -
  obtain p h' op' where r: "YBRedisReadOp_mutable_response h rop = (p, h', op')"
    by (cases "YBRedisReadOp_mutable_response h rop") auto
  obtain q k' wop' where w: "YBRedisWriteOp_mutable_response h wop = (q, k', wop')"
    by (cases "YBRedisWriteOp_mutable_response h wop") auto
  have r_fix: "((\<lambda>(q, k, x). YBRedisReadOp_mutable_response k x) ^^ n) (p, h', op') = (p, h', op')"
    by (rule funpow_fixed) (simp add: read_mutable_response_again [OF r])
  have w_fix: "((\<lambda>(q, k, x). YBRedisWriteOp_mutable_response k x) ^^ n) (q, k', wop') = (q, k', wop')"
    by (rule funpow_fixed) (simp add: write_mutable_response_again [OF w])
  have r_rest: "p \<noteq> None \<and> p = read_redis_response op'
        \<and> (read_redis_response rop = None \<longrightarrow>
             p = Some (length h) \<and> h' = h @ [RedisResponsePB_new])
        \<and> (read_redis_response rop \<noteq> None \<longrightarrow>
             p = read_redis_response rop \<and> h' = h \<and> op' = rop)"
    using r by (cases "read_redis_response rop")
      (auto simp: YBRedisReadOp_mutable_response_def Let_def dest: sym)
  have w_rest: "q \<noteq> None \<and> q = write_redis_response wop'
        \<and> (write_redis_response wop = None \<longrightarrow>
             q = Some (length h) \<and> k' = h @ [RedisResponsePB_new])
        \<and> (write_redis_response wop \<noteq> None \<longrightarrow>
             q = write_redis_response wop \<and> k' = h \<and> wop' = wop)"
    using w by (cases "write_redis_response wop")
      (auto simp: YBRedisWriteOp_mutable_response_def Let_def dest: sym)
  show ?thesis
    unfolding r w prod.case using r_fix w_fix r_rest w_rest by blast
qed

theorem mutable_response_witness:
  "read_redis_response (YBRedisReadOp_new (YBTable ''.redis'')) = None
   \<and> YBRedisReadOp_mutable_response [] (YBRedisReadOp_new (YBTable ''.redis''))
       = (Some 0, [RedisResponsePB_new],
          (YBRedisReadOp_new (YBTable ''.redis''))\<lparr>read_redis_response := Some 0\<rparr>)
   \<and> ((\<lambda>(q, k, x). YBRedisReadOp_mutable_response k x) ^^ 3)
        (YBRedisReadOp_mutable_response [] (YBRedisReadOp_new (YBTable ''.redis'')))
       = (Some 0, [RedisResponsePB_new],
          (YBRedisReadOp_new (YBTable ''.redis''))\<lparr>read_redis_response := Some 0\<rparr>)
   \<and> write_redis_response (YBRedisWriteOp_new (YBTable ''.redis'')) = None
   \<and> YBRedisWriteOp_mutable_response [] (YBRedisWriteOp_new (YBTable ''.redis''))
       = (Some 0, [RedisResponsePB_new],
          (YBRedisWriteOp_new (YBTable ''.redis''))\<lparr>write_redis_response := Some 0\<rparr>)
   \<and> ((\<lambda>(q, k, x). YBRedisWriteOp_mutable_response k x) ^^ 3)
        (YBRedisWriteOp_mutable_response [] (YBRedisWriteOp_new (YBTable ''.redis'')))
       = (Some 0, [RedisResponsePB_new],
          (YBRedisWriteOp_new (YBTable ''.redis''))\<lparr>write_redis_response := Some 0\<rparr>)"
  using mutable_response_idempotent_never_null
    [where h = "[]" and rop = "YBRedisReadOp_new (YBTable ''.redis'')" and n = 3
       and wop = "YBRedisWriteOp_new (YBTable ''.redis'')"]
  by (simp add: YBRedisReadOp_new_def YBRedisWriteOp_new_def
      YBRedisReadOp_mutable_response_def YBRedisWriteOp_mutable_response_def Let_def)

subsection \<open>The completion callbacks\<close>

lemma is_response_simps [simp]:
  "is_response (RespondSuccess call r m)"
  "is_response (RespondFailure call st m)"
  "\<not> is_response (Increment hist d)"
  "\<not> is_response (LogWarning txt)"
  "\<not> is_response (LogError txt)"
  "\<not> is_response (GetPendingErrors sess)"
  by (simp_all add: is_response_def)

lemma read_response_filled:
  "read_redis_response rop = Some a \<Longrightarrow> a < length h \<Longrightarrow>
   YBRedisReadOp_response h rop = Inr (h ! a)"
  by (simp add: YBRedisReadOp_response_def)

lemma write_response_filled:
  "write_redis_response wop = Some a \<Longrightarrow> a < length h \<Longrightarrow>
   YBRedisWriteOp_response h wop = Inr (h ! a)"
  by (simp add: YBRedisWriteOp_response_def)

lemma ReadCommandCb_Run_ok:
  assumes "handler_latency (read_metrics_internal cb) = Some hist"
    and "read_redis_response (read_op cb) = Some a" and "a < length h" and "ok st"
  shows "ReadCommandCb_Run e h cb st =
     Inr [Increment hist (env_Now e - read_start cb),
          RespondSuccess (read_redis_call cb) (h ! a) (read_metrics cb)]"
  using assms by (simp add: ReadCommandCb_Run_def after_def read_response_filled)

lemma ReadCommandCb_Run_not_ok:
  assumes "handler_latency (read_metrics_internal cb) = Some hist" and "\<not> ok st"
  shows "ReadCommandCb_Run e h cb st =
     Inr [Increment hist (env_Now e - read_start cb),
          RespondFailure (read_redis_call cb) st (read_metrics cb)]"
  using assms by (simp add: ReadCommandCb_Run_def after_def)

lemma WriteCommandCb_Run_ok:
  assumes "handler_latency (write_metrics_internal cb) = Some hist"
    and "write_redis_response (write_op cb) = Some a" and "a < length h" and "ok st"
  shows "WriteCommandCb_Run e h cb st =
     Inr [Increment hist (env_Now e - write_start cb),
          RespondSuccess (write_redis_call cb) (h ! a) (write_metrics cb)]"
  using assms by (simp add: WriteCommandCb_Run_def after_def write_response_filled)

lemma WriteCommandCb_Run_not_ok:
  assumes "handler_latency (write_metrics_internal cb) = Some hist" and "\<not> ok st"
  shows "WriteCommandCb_Run e h cb st =
     Inr (Increment hist (env_Now e - write_start cb)
          # (case write_session cb of
               None \<Rightarrow> []
             | Some session \<Rightarrow>
                 GetPendingErrors session
                 # map (\<lambda>error. LogWarning (''Explicit error while inserting: ''
                          @ env_ToString e (status error)))
                     (fst (env_GetPendingErrors e session)))
          @ [RespondFailure (write_redis_call cb) st (write_metrics cb)])"
  using assms
  by (simp add: WriteCommandCb_Run_def after_def split: option.splits prod.splits)

lemma filter_LogWarning:
  "filter is_response (map (\<lambda>error. LogWarning (f error)) errors) = []"
  by (induction errors) simp_all

subsection \<open>What the constructor builds\<close>

lemma setup_methods_ok:
  assumes "idx + length ms \<le> length tbl"
    and "map name (take (length ms) (drop idx tbl)) = ms"
  shows "setup_methods tbl ms idx s =
     Inr (s\<lparr>command_name_to_info_map :=
               command_name_to_info_map s ++ map_of (rev (zip ms (drop idx tbl))),
            metrics := (\<lambda>k. if k \<in> set ms then \<lparr>handler_latency = Some (Instantiate k)\<rparr>
                             else metrics s k)\<rparr>)"
  using assms
proof (induction ms arbitrary: idx s)
  case Nil
  then show ?case by simp
next
  case (Cons m rest)
  from Cons.prems have lt: "idx < length tbl" by simp
  then have dr: "drop idx tbl = tbl ! idx # drop (Suc idx) tbl"
    by (simp add: Cons_nth_drop_Suc)
  from Cons.prems dr have nm: "m = name (tbl ! idx)"
    and rest: "map name (take (length rest) (drop (Suc idx) tbl)) = rest"
    by simp_all
  from Cons.prems have le: "Suc idx + length rest \<le> length tbl" by simp
  let ?s1 = "s\<lparr>command_name_to_info_map := (command_name_to_info_map s)(m \<mapsto> tbl ! idx),
             metrics := (metrics s)(m := \<lparr>handler_latency = Some (Instantiate m)\<rparr>)\<rparr>"
  have step: "SETUP_METRICS_FOR_METHOD tbl m idx s = Inr ?s1"
    using lt nm by (simp add: SETUP_METRICS_FOR_METHOD_def)
  have fields: "command_name_to_info_map ?s1 = (command_name_to_info_map s)(m \<mapsto> tbl ! idx)"
    "metrics ?s1 = (metrics s)(m := \<lparr>handler_latency = Some (Instantiate m)\<rparr>)"
    by simp_all
  have maps: "(command_name_to_info_map s)(m \<mapsto> tbl ! idx)
        ++ map_of (rev (zip rest (drop (Suc idx) tbl)))
      = command_name_to_info_map s ++ map_of (rev (zip (m # rest) (drop idx tbl)))"
    by (simp add: dr map_add_upd_left)
  have mets: "(\<lambda>k. if k \<in> set rest then \<lparr>handler_latency = Some (Instantiate k)\<rparr>
                    else ((metrics s)(m := \<lparr>handler_latency = Some (Instantiate m)\<rparr>)) k)
      = (\<lambda>k. if k \<in> set (m # rest) then \<lparr>handler_latency = Some (Instantiate k)\<rparr>
              else metrics s k)"
    by (rule ext) simp
  have "setup_methods tbl (m # rest) idx s = setup_methods tbl rest (Suc idx) ?s1"
    using step by simp
  also have "\<dots> = Inr (?s1\<lparr>command_name_to_info_map :=
               command_name_to_info_map ?s1 ++ map_of (rev (zip rest (drop (Suc idx) tbl))),
            metrics := (\<lambda>k. if k \<in> set rest then \<lparr>handler_latency = Some (Instantiate k)\<rparr>
                             else metrics ?s1 k)\<rparr>)"
    by (rule Cons.IH [OF le rest])
  also have "\<dots> = Inr (s\<lparr>command_name_to_info_map :=
               command_name_to_info_map s ++ map_of (rev (zip (m # rest) (drop idx tbl))),
            metrics := (\<lambda>k. if k \<in> set (m # rest) then \<lparr>handler_latency = Some (Instantiate k)\<rparr>
                             else metrics s k)\<rparr>)"
    by (simp only: fields maps mets) simp
  finally show ?case .
qed

lemma RedisServiceImpl_new_ok:
  assumes "map name tbl = method_names"
  shows "RedisServiceImpl_new 13 tbl addresses =
     Inr \<lparr>yb_tier_master_addresses = addresses, yb_client_initialized = False,
          client = None, table = None,
          command_name_to_info_map = map_of (rev (zip method_names tbl)),
          metrics = (\<lambda>k. if k \<in> set method_names then \<lparr>handler_latency = Some (Instantiate k)\<rparr>
                       else \<lparr>handler_latency = None\<rparr>)
                (''error'' := \<lparr>handler_latency = Some (Instantiate ''error'')\<rparr>,
                 ''get_internal'' := \<lparr>handler_latency = Some (Instantiate ''get_internal'')\<rparr>,
                 ''set_internal'' := \<lparr>handler_latency = Some (Instantiate ''set_internal'')\<rparr>)\<rparr>"
proof -
  have "length (map name tbl) = 13"
    unfolding assms by (simp add: method_names_def)
  then have len: "length tbl = 13" by simp
  have len2: "length method_names = 13" by (simp add: method_names_def)
  let ?s0 = "\<lparr>yb_tier_master_addresses = addresses, yb_client_initialized = False,
        client = None, table = None, command_name_to_info_map = Map.empty,
        metrics = (\<lambda>k. \<lparr>handler_latency = None\<rparr>)\<rparr>"
  have init: "command_name_to_info_map ?s0 = Map.empty"
    "metrics ?s0 = (\<lambda>k. \<lparr>handler_latency = None\<rparr>)"
    by simp_all
  have "setup_methods tbl method_names 0 ?s0 = Inr (?s0\<lparr>command_name_to_info_map :=
               command_name_to_info_map ?s0 ++ map_of (rev (zip method_names (drop 0 tbl))),
            metrics := (\<lambda>k. if k \<in> set method_names then \<lparr>handler_latency = Some (Instantiate k)\<rparr>
                             else metrics ?s0 k)\<rparr>)"
    by (rule setup_methods_ok) (simp_all add: len len2 assms)
  also have "\<dots> = Inr \<lparr>yb_tier_master_addresses = addresses, yb_client_initialized = False,
          client = None, table = None,
          command_name_to_info_map = map_of (rev (zip method_names tbl)),
          metrics = (\<lambda>k. if k \<in> set method_names then \<lparr>handler_latency = Some (Instantiate k)\<rparr>
                       else \<lparr>handler_latency = None\<rparr>)\<rparr>"
    by (simp only: init) simp
  finally have run: "setup_methods tbl method_names 0 ?s0 =
      Inr \<lparr>yb_tier_master_addresses = addresses, yb_client_initialized = False,
          client = None, table = None,
          command_name_to_info_map = map_of (rev (zip method_names tbl)),
          metrics = (\<lambda>k. if k \<in> set method_names then \<lparr>handler_latency = Some (Instantiate k)\<rparr>
                       else \<lparr>handler_latency = None\<rparr>)\<rparr>" .
  show ?thesis
    unfolding RedisServiceImpl_new_def PopulateHandlers_def run
    by (simp add: len len2)
qed

lemma sample_new: "RedisServiceImpl_new 13 sample_table ''127.0.0.1:7100'' = Inr sample_service"
  unfolding sample_service_def
  by (rule RedisServiceImpl_new_ok) (simp add: sample_table_def method_names_def)

text \<open>The histograms of the sample service.\<close>

lemma sample_metrics:
  "metrics sample_service ''get'' = \<lparr>handler_latency = Some (Instantiate ''get'')\<rparr>"
  "metrics sample_service ''set'' = \<lparr>handler_latency = Some (Instantiate ''set'')\<rparr>"
  "metrics sample_service ''exists'' = \<lparr>handler_latency = Some (Instantiate ''exists'')\<rparr>"
  "metrics sample_service ''getrange'' = \<lparr>handler_latency = Some (Instantiate ''getrange'')\<rparr>"
  "metrics sample_service ''error'' = \<lparr>handler_latency = Some (Instantiate ''error'')\<rparr>"
  "metrics sample_service ''get_internal'' = \<lparr>handler_latency = Some (Instantiate ''get_internal'')\<rparr>"
  "metrics sample_service ''set_internal'' = \<lparr>handler_latency = Some (Instantiate ''set_internal'')\<rparr>"
  by (simp_all add: sample_service_def method_names_def)

subsection \<open>The precondition of \<^verbatim>\<open>response()\<close>\<close>

lemma read_response_empty:
  "read_redis_response rop = None \<Longrightarrow>
   YBRedisReadOp_response h rop = Inl (AssertFailed ''redis_response != nullptr'')"
  by (simp add: YBRedisReadOp_response_def)

lemma read_response_assert_iff:
  "(YBRedisReadOp_response h rop = Inl (AssertFailed ''redis_response != nullptr''))
     = (read_redis_response rop = None)"
  by (simp add: YBRedisReadOp_response_def split: option.splits)

lemma read_mutable_response_fill:
  assumes "\<forall>a. read_redis_response rop = Some a \<longrightarrow> a < length h"
    and "YBRedisReadOp_mutable_response h rop = (p, h', op')"
  shows "\<exists>a. p = Some a \<and> read_redis_response op' = Some a \<and> a < length h'"
proof (cases "read_redis_response rop")
  case None
  with assms(2) show ?thesis
    by (auto simp: YBRedisReadOp_mutable_response_def Let_def)
next
  case (Some a)
  with assms have "p = Some a" and "h' = h" and "op' = rop" and "a < length h"
    by (auto simp: YBRedisReadOp_mutable_response_def)
  with Some show ?thesis by simp
qed

text \<open>
  C10. \<^verbatim>\<open>YBRedisReadOp::response()\<close> requires a filled response slot: it fails its
  assertion exactly when the slot is null, as it is on a newly constructed operation, and
  then the success branch of \<^verbatim>\<open>ReadCommandCb::Run\<close> fails with it. Once the slot has
  been obtained through \<^verbatim>\<open>mutable_response()\<close> and a response \<open>r\<close> written to it, which
  is what a completion with status OK has done, \<open>response()\<close> returns \<open>r\<close> and the run
  on status OK meets no assertion and responds with \<open>r\<close>. The slot, when not null, owns
  an object of the store.
\<close>

theorem response_requires_filled_slot:
  assumes "handler_latency (read_metrics_internal cb) = Some hist"
    and "\<forall>a. read_redis_response (read_op cb) = Some a \<longrightarrow> a < length h"
  shows "(YBRedisReadOp_response h (read_op cb) = Inl (AssertFailed ''redis_response != nullptr''))
           = (read_redis_response (read_op cb) = None)
       \<and> YBRedisReadOp_response h (YBRedisReadOp_new t)
           = Inl (AssertFailed ''redis_response != nullptr'')
       \<and> (read_redis_response (read_op cb) = None \<longrightarrow>
            ReadCommandCb_Run e h cb OK = Inl (AssertFailed ''redis_response != nullptr''))
       \<and> (case YBRedisReadOp_mutable_response h (read_op cb) of
             (p, h', op') \<Rightarrow>
               \<exists>a. p = Some a
                 \<and> (\<forall>r. YBRedisReadOp_response (h'[a := r]) op' = Inr r
                       \<and> ReadCommandCb_Run e (h'[a := r]) (cb\<lparr>read_op := op'\<rparr>) OK =
                           Inr [Increment hist (env_Now e - read_start cb),
                                RespondSuccess (read_redis_call cb) r (read_metrics cb)]))"
proof -
  obtain p h' op' where m: "YBRedisReadOp_mutable_response h (read_op cb) = (p, h', op')"
    by (cases "YBRedisReadOp_mutable_response h (read_op cb)") auto
  from read_mutable_response_fill [OF assms(2) m]
  obtain a where a: "p = Some a" "read_redis_response op' = Some a" "a < length h'"
    by blast
  have filled: "YBRedisReadOp_response (h'[a := r]) op' = Inr r" for r
    using a by (simp add: read_response_filled)
  have run: "ReadCommandCb_Run e (h'[a := r]) (cb\<lparr>read_op := op'\<rparr>) OK =
      Inr [Increment hist (env_Now e - read_start cb),
           RespondSuccess (read_redis_call cb) r (read_metrics cb)]" for r
    using a assms(1) ReadCommandCb_Run_ok [of "cb\<lparr>read_op := op'\<rparr>" hist a "h'[a := r]" OK e]
    by simp
  have empty: "read_redis_response (read_op cb) = None \<longrightarrow>
      ReadCommandCb_Run e h cb OK = Inl (AssertFailed ''redis_response != nullptr'')"
    using assms(1) by (simp add: ReadCommandCb_Run_def after_def read_response_empty)
  have new: "YBRedisReadOp_response h (YBRedisReadOp_new t)
      = Inl (AssertFailed ''redis_response != nullptr'')"
    by (simp add: read_response_empty YBRedisReadOp_new_def)
  show ?thesis
    unfolding m prod.case using a(1) filled run empty new read_response_assert_iff by blast
qed

theorem response_requires_filled_slot_witness:
  "handler_latency (read_metrics_internal
       (sample_read_cb\<lparr>read_op := YBRedisReadOp_new (YBTable ''.redis'')\<rparr>))
     = Some (Instantiate ''get_internal'')
   \<and> read_redis_response (YBRedisReadOp_new (YBTable ''.redis'')) = None
   \<and> ReadCommandCb_Run sample_env []
        (sample_read_cb\<lparr>read_op := YBRedisReadOp_new (YBTable ''.redis'')\<rparr>) OK
       = Inl (AssertFailed ''redis_response != nullptr'')
   \<and> YBRedisReadOp_mutable_response [] (YBRedisReadOp_new (YBTable ''.redis''))
       = (Some 0, [RedisResponsePB_new],
          (YBRedisReadOp_new (YBTable ''.redis''))\<lparr>read_redis_response := Some 0\<rparr>)
   \<and> ReadCommandCb_Run sample_env ([RedisResponsePB_new][0 := \<lparr>string_response = Some ''v''\<rparr>])
        (sample_read_cb\<lparr>read_op :=
           (YBRedisReadOp_new (YBTable ''.redis''))\<lparr>read_redis_response := Some 0\<rparr>\<rparr>) OK
       = Inr [Increment (Instantiate ''get_internal'') 500,
              RespondSuccess (sample_call [''get'', ''k'']) \<lparr>string_response = Some ''v''\<rparr>
                \<lparr>handler_latency = Some (Instantiate ''get'')\<rparr>]"
proof -
  let ?cb = "sample_read_cb\<lparr>read_op := YBRedisReadOp_new (YBTable ''.redis'')\<rparr>"
  have a: "handler_latency (read_metrics_internal ?cb) = Some (Instantiate ''get_internal'')"
    by (simp add: sample_read_cb_def sample_metrics)
  have b: "\<forall>a. read_redis_response (read_op ?cb) = Some a \<longrightarrow> a < length ([] :: response_store)"
    by (simp add: YBRedisReadOp_new_def)
  have m: "YBRedisReadOp_mutable_response [] (YBRedisReadOp_new (YBTable ''.redis''))
       = (Some 0, [RedisResponsePB_new],
          (YBRedisReadOp_new (YBTable ''.redis''))\<lparr>read_redis_response := Some 0\<rparr>)"
    by (simp add: YBRedisReadOp_mutable_response_def YBRedisReadOp_new_def Let_def)
  from response_requires_filled_slot [OF a b, of "YBTable ''.redis''" sample_env] a m
  show ?thesis
    by (simp add: sample_read_cb_def sample_env_def sample_metrics YBRedisReadOp_new_def)
qed

subsection \<open>Initialisation and dispatch\<close>

lemma SetUpYBClient_build_fails:
  "\<not> yb_client_initialized s \<Longrightarrow> \<not> ok (env_Build e a) \<Longrightarrow>
   SetUpYBClient e s a = (env_Build e a, [MutexLock, BuildClient a, MutexUnlock], s)"
  by (simp add: SetUpYBClient_def)

lemma SetUpYBClient_open_fails:
  "\<not> yb_client_initialized s \<Longrightarrow> ok (env_Build e a) \<Longrightarrow>
   \<not> ok (env_OpenTable e (kRedisTableName e)) \<Longrightarrow>
   SetUpYBClient e s a =
     (env_OpenTable e (kRedisTableName e),
      [MutexLock, BuildClient a, OpenTable (kRedisTableName e), MutexUnlock],
      s\<lparr>client := Some (YBClient a)\<rparr>)"
  by (simp add: SetUpYBClient_def Let_def)

lemma SetUpYBClient_succeeds:
  "\<not> yb_client_initialized s \<Longrightarrow> ok (env_Build e a) \<Longrightarrow>
   ok (env_OpenTable e (kRedisTableName e)) \<Longrightarrow>
   SetUpYBClient e s a =
     (OK, [MutexLock, BuildClient a, OpenTable (kRedisTableName e), MutexUnlock],
      s\<lparr>client := Some (YBClient a), table := Some (YBTable (kRedisTableName e)),
        yb_client_initialized := True\<rparr>)"
  by (simp add: SetUpYBClient_def Let_def)

lemma SetUpYBClient_initialized:
  "yb_client_initialized s \<Longrightarrow> SetUpYBClient e s a = (OK, [MutexLock, MutexUnlock], s)"
  by (simp add: SetUpYBClient_def)

lemma SetUpYBClient_attempts_build:
  "\<not> yb_client_initialized s \<Longrightarrow> BuildClient a \<in> set (fst (snd (SetUpYBClient e s a)))"
  by (simp add: SetUpYBClient_def Let_def)

lemma SetUpYBClient_failed_unset:
  "\<not> ok (fst (SetUpYBClient e s a)) \<Longrightarrow>
   \<not> yb_client_initialized (snd (snd (SetUpYBClient e s a)))"
  by (simp add: SetUpYBClient_def Let_def split: if_splits)

lemma SetUpYBClient_failed_state:
  "\<not> ok (fst (SetUpYBClient e s a)) \<Longrightarrow>
   snd (snd (SetUpYBClient e s a)) = s \<or>
   snd (snd (SetUpYBClient e s a)) = s\<lparr>client := Some (YBClient a)\<rparr>"
  by (simp add: SetUpYBClient_def Let_def split: if_splits)

lemma is_setup_event_simps [simp]:
  "is_setup_event MutexLock" "is_setup_event MutexUnlock"
  "is_setup_event (BuildClient a)" "is_setup_event (OpenTable n)"
  "\<not> is_setup_event (LogError txt)" "\<not> is_setup_event (LogWarning txt)"
  "\<not> is_setup_event (NewSession ro)" "\<not> is_setup_event (SetTimeoutMillis sess ms)"
  "\<not> is_setup_event (SetFlushMode sess fm)" "\<not> is_setup_event NewRedisRead"
  "\<not> is_setup_event NewRedisWrite" "\<not> is_setup_event (ReadAsync sess rop rcb)"
  "\<not> is_setup_event (Apply sess wop)" "\<not> is_setup_event (FlushAsync sess wcb)"
  "\<not> is_setup_event (GetPendingErrors sess)" "\<not> is_setup_event (Increment hist d)"
  "\<not> is_setup_event (RespondSuccess call r m)" "\<not> is_setup_event (RespondFailure call st m)"
  by (simp_all add: is_setup_event_def)

lemma after_Inr:
  "after evs r = Inr out \<Longrightarrow> \<exists>evs'. r = Inr evs' \<and> out = evs @ evs'"
  by (cases r) (simp_all add: after_def)

lemma RespondWithFailure_cons:
  "cmd_args c = cmd # rest \<Longrightarrow>
   RespondWithFailure s error call c =
     Inr [RespondFailure call (STATUS ''RuntimeError'' (c_str error @ '' : '' @ c_str cmd))
            (metrics s ''error'')]"
  by (simp add: RespondWithFailure_def)

lemma RespondWithFailure_no_setup:
  "RespondWithFailure s error call c = Inr evs \<Longrightarrow> filter is_setup_event evs = []"
  by (auto simp: RespondWithFailure_def split: list.splits)

lemma ReadCommand_no_setup:
  assumes "ReadCommand e s call c command_name parse = Inr evs"
  shows "filter is_setup_event evs = []"
proof -
  obtain st rop where p: "parse (YBRedisReadOp_new (the (table s))) (cmd_args c) = (st, rop)"
    by (cases "parse (YBRedisReadOp_new (the (table s))) (cmd_args c)") auto
  show ?thesis
  proof (cases "ok st")
    case True
    with assms p show ?thesis
      by (auto simp: ReadCommand_def after_def ConfigureSession_def Let_def
          split: option.splits if_splits)
  next
    case False
    with assms p show ?thesis
      by (auto simp: ReadCommand_def after_def ConfigureSession_def Let_def
          split: option.splits if_splits sum.splits dest: RespondWithFailure_no_setup)
  qed
qed

lemma WriteCommand_no_setup:
  assumes "WriteCommand e s call c command_name parse = Inr evs"
  shows "filter is_setup_event evs = []"
proof -
  obtain st wop where p: "parse (YBRedisWriteOp_new (the (table s))) (cmd_args c) = (st, wop)"
    by (cases "parse (YBRedisWriteOp_new (the (table s))) (cmd_args c)") auto
  show ?thesis
  proof (cases "ok st")
    case True
    with assms p show ?thesis
      by (auto simp: WriteCommand_def after_def ConfigureSession_def Let_def
          split: option.splits if_splits)
  next
    case False
    with assms p show ?thesis
      by (auto simp: WriteCommand_def after_def ConfigureSession_def Let_def
          split: option.splits if_splits sum.splits dest: RespondWithFailure_no_setup)
  qed
qed

lemma invoke_no_setup:
  "invoke fp e s call c = Inr evs \<Longrightarrow> filter is_setup_event evs = []"
  by (cases fp)
    (auto simp: GetCommand_def HGetCommand_def StrLenCommand_def ExistsCommand_def
      GetRangeCommand_def SetCommand_def HSetCommand_def GetSetCommand_def AppendCommand_def
      DelCommand_def SetRangeCommand_def IncrCommand_def EchoCommand_def
      dest: ReadCommand_no_setup WriteCommand_no_setup split: if_splits)

lemma HandleCurrentCommand_no_setup:
  "HandleCurrentCommand e s cmd_info call c = Inr evs \<Longrightarrow> filter is_setup_event evs = []"
  by (auto simp: HandleCurrentCommand_def after_def
      split: option.splits if_splits list.splits sum.splits
      dest: RespondWithFailure_no_setup invoke_no_setup)

lemma ValidateAndHandle_initialized:
  "yb_client_initialized s \<Longrightarrow>
   ValidateAndHandle e s cmd_info call c =
     (case HandleCurrentCommand e s cmd_info call c of
        Inl f \<Rightarrow> Inl f | Inr evs \<Rightarrow> Inr (evs, s))"
  by (simp add: ValidateAndHandle_def)

text \<open>
  C5. \<^verbatim>\<open>SetUpYBClient\<close> on an unset flag: when the build fails, or the build succeeds
  and the open fails, the failing status is returned and the flag stays unset; a later call
  on the state a failed call left attempts the build again, and when build and open then
  succeed it returns OK and sets the flag. On a set flag the call returns OK with no build
  and no open, and \<open>ValidateAndHandle\<close> neither takes the mutex nor builds nor opens, and
  leaves the service as it was.
\<close>

theorem SetUpYBClient_retries_until_initialized:
  "(\<not> yb_client_initialized s \<and> \<not> ok (env_Build e a) \<longrightarrow>
      SetUpYBClient e s a = (env_Build e a, [MutexLock, BuildClient a, MutexUnlock], s))
   \<and> (\<not> yb_client_initialized s \<and> ok (env_Build e a)
        \<and> \<not> ok (env_OpenTable e (kRedisTableName e)) \<longrightarrow>
      SetUpYBClient e s a =
        (env_OpenTable e (kRedisTableName e),
         [MutexLock, BuildClient a, OpenTable (kRedisTableName e), MutexUnlock],
         s\<lparr>client := Some (YBClient a)\<rparr>))
   \<and> (\<not> yb_client_initialized s \<and> \<not> ok (fst (SetUpYBClient e s a)) \<longrightarrow>
        \<not> yb_client_initialized (snd (snd (SetUpYBClient e s a)))
        \<and> (\<forall>e2. BuildClient a \<in> set (fst (snd (SetUpYBClient e2 (snd (snd (SetUpYBClient e s a))) a)))
              \<and> (ok (env_Build e2 a) \<and> ok (env_OpenTable e2 (kRedisTableName e2)) \<longrightarrow>
                   SetUpYBClient e2 (snd (snd (SetUpYBClient e s a))) a =
                     (OK, [MutexLock, BuildClient a, OpenTable (kRedisTableName e2), MutexUnlock],
                      s\<lparr>client := Some (YBClient a),
                        table := Some (YBTable (kRedisTableName e2)),
                        yb_client_initialized := True\<rparr>))))
   \<and> (yb_client_initialized s \<longrightarrow>
        SetUpYBClient e s a = (OK, [MutexLock, MutexUnlock], s)
        \<and> (\<forall>cmd_info call c evs s'.
              ValidateAndHandle e s cmd_info call c = Inr (evs, s') \<longrightarrow>
              filter is_setup_event evs = [] \<and> s' = s))"
proof -
  have retry: "\<not> yb_client_initialized (snd (snd (SetUpYBClient e s a)))
        \<and> (\<forall>e2. BuildClient a \<in> set (fst (snd (SetUpYBClient e2 (snd (snd (SetUpYBClient e s a))) a)))
              \<and> (ok (env_Build e2 a) \<and> ok (env_OpenTable e2 (kRedisTableName e2)) \<longrightarrow>
                   SetUpYBClient e2 (snd (snd (SetUpYBClient e s a))) a =
                     (OK, [MutexLock, BuildClient a, OpenTable (kRedisTableName e2), MutexUnlock],
                      s\<lparr>client := Some (YBClient a),
                        table := Some (YBTable (kRedisTableName e2)),
                        yb_client_initialized := True\<rparr>)))"
    if f: "\<not> ok (fst (SetUpYBClient e s a))"
  proof -
    let ?s' = "snd (snd (SetUpYBClient e s a))"
    have unset: "\<not> yb_client_initialized ?s'"
      by (rule SetUpYBClient_failed_unset [OF f])
    have st: "?s' = s \<or> ?s' = s\<lparr>client := Some (YBClient a)\<rparr>"
      by (rule SetUpYBClient_failed_state [OF f])
    have again: "SetUpYBClient e2 ?s' a =
        (OK, [MutexLock, BuildClient a, OpenTable (kRedisTableName e2), MutexUnlock],
         s\<lparr>client := Some (YBClient a), table := Some (YBTable (kRedisTableName e2)),
           yb_client_initialized := True\<rparr>)"
      if "ok (env_Build e2 a)" and "ok (env_OpenTable e2 (kRedisTableName e2))" for e2
      using st that unset by (auto simp: SetUpYBClient_succeeds)
    show ?thesis
      using unset again SetUpYBClient_attempts_build [OF unset] by blast
  qed
  have steady: "filter is_setup_event evs = [] \<and> s' = s"
    if "yb_client_initialized s" and "ValidateAndHandle e s cmd_info call c = Inr (evs, s')"
    for cmd_info call c evs s'
    using that
    by (auto simp: ValidateAndHandle_initialized split: sum.splits
        dest: HandleCurrentCommand_no_setup)
  show ?thesis
    using retry steady
    by (simp add: SetUpYBClient_build_fails SetUpYBClient_open_fails SetUpYBClient_initialized)
qed


lemma sample_dispatch_get:
  "ValidateAndHandle sample_env sample_ready (Some (sample_table ! 0))
     (sample_call [''get'', ''k'']) \<lparr>cmd_args = [''get'', ''k'']\<rparr> =
   Inr ([NewSession True, SetTimeoutMillis (YBSession True) 60000,
         SetFlushMode (YBSession True) MANUAL_FLUSH, NewRedisRead,
         ReadAsync (YBSession True)
           \<lparr>read_table = YBTable ''.redis'', redis_read_request = RedisReadRequestPB [''k''],
            read_redis_response = None\<rparr>
           \<lparr>read_session = Some (YBSession True),
            read_redis_call = sample_call [''get'', ''k''],
            read_op = \<lparr>read_table = YBTable ''.redis'',
                       redis_read_request = RedisReadRequestPB [''k''],
                       read_redis_response = None\<rparr>,
            read_metrics = \<lparr>handler_latency = Some (Instantiate ''get'')\<rparr>,
            read_metrics_internal = \<lparr>handler_latency = Some (Instantiate ''get_internal'')\<rparr>,
            read_start = 1500\<rparr>], sample_ready)"
  by (simp add: ValidateAndHandle_def HandleCurrentCommand_def sample_ready_def sample_table_def
      GetCommand_def ReadCommand_def after_def ConfigureSession_def sample_env_def
      sample_parse_read_def YBRedisReadOp_new_def sample_metrics Let_def)

theorem SetUpYBClient_retries_until_initialized_witness:
  "\<not> yb_client_initialized sample_service
   \<and> SetUpYBClient (sample_env\<lparr>env_Build := \<lambda>a. STATUS ''NetworkError'' ''unreachable''\<rparr>)
        sample_service ''127.0.0.1:7100'' =
       (STATUS ''NetworkError'' ''unreachable'',
        [MutexLock, BuildClient ''127.0.0.1:7100'', MutexUnlock], sample_service)
   \<and> SetUpYBClient (sample_env\<lparr>env_OpenTable := \<lambda>n. STATUS ''NotFound'' ''no table''\<rparr>)
        sample_service ''127.0.0.1:7100'' =
       (STATUS ''NotFound'' ''no table'',
        [MutexLock, BuildClient ''127.0.0.1:7100'', OpenTable ''.redis'', MutexUnlock],
        sample_service\<lparr>client := Some (YBClient ''127.0.0.1:7100'')\<rparr>)
   \<and> SetUpYBClient sample_env
        (snd (snd (SetUpYBClient
           (sample_env\<lparr>env_OpenTable := \<lambda>n. STATUS ''NotFound'' ''no table''\<rparr>)
           sample_service ''127.0.0.1:7100''))) ''127.0.0.1:7100'' =
       (OK, [MutexLock, BuildClient ''127.0.0.1:7100'', OpenTable ''.redis'', MutexUnlock],
        sample_ready)
   \<and> yb_client_initialized sample_ready
   \<and> SetUpYBClient (sample_env\<lparr>env_Build := \<lambda>a. STATUS ''NetworkError'' ''unreachable''\<rparr>)
        sample_ready ''127.0.0.1:7100'' = (OK, [MutexLock, MutexUnlock], sample_ready)
   \<and> filter is_setup_event
        (fst (projr (ValidateAndHandle sample_env sample_ready (Some (sample_table ! 0))
           (sample_call [''get'', ''k'']) \<lparr>cmd_args = [''get'', ''k'']\<rparr>))) = []"
proof -
  let ?a = "''127.0.0.1:7100''"
  let ?e1 = "sample_env\<lparr>env_Build := \<lambda>a. STATUS ''NetworkError'' ''unreachable''\<rparr>"
  let ?e2 = "sample_env\<lparr>env_OpenTable := \<lambda>n. STATUS ''NotFound'' ''no table''\<rparr>"
  have u: "\<not> yb_client_initialized sample_service"
    by (simp add: sample_service_def)
  have r: "yb_client_initialized sample_ready"
    by (simp add: sample_ready_def)
  have b1: "\<not> ok (env_Build ?e1 ?a)" by simp
  have b2: "ok (env_Build ?e2 ?a)" "\<not> ok (env_OpenTable ?e2 (kRedisTableName ?e2))"
    by (simp_all add: sample_env_def)
  have b3: "ok (env_Build sample_env ?a)" "ok (env_OpenTable sample_env (kRedisTableName sample_env))"
    "kRedisTableName sample_env = ''.redis''" "kRedisTableName ?e2 = ''.redis''"
    by (simp_all add: sample_env_def)
  have f2: "\<not> ok (fst (SetUpYBClient ?e2 sample_service ?a))"
    using u b2 by (simp add: SetUpYBClient_open_fails)
  note t1 = SetUpYBClient_retries_until_initialized [of sample_service ?e1 ?a]
  note t2 = SetUpYBClient_retries_until_initialized [of sample_service ?e2 ?a]
  note t3 = SetUpYBClient_retries_until_initialized [of sample_ready ?e1 ?a]
  have c1: "SetUpYBClient ?e1 sample_service ?a =
       (STATUS ''NetworkError'' ''unreachable'', [MutexLock, BuildClient ?a, MutexUnlock],
        sample_service)"
    using t1 u b1 by simp
  have c2: "SetUpYBClient ?e2 sample_service ?a =
       (STATUS ''NotFound'' ''no table'',
        [MutexLock, BuildClient ?a, OpenTable ''.redis'', MutexUnlock],
        sample_service\<lparr>client := Some (YBClient ?a)\<rparr>)"
    using t2 u b2 b3(4) by simp
  from t2 u f2 have "\<forall>e2. ok (env_Build e2 ?a) \<and> ok (env_OpenTable e2 (kRedisTableName e2)) \<longrightarrow>
       SetUpYBClient e2 (snd (snd (SetUpYBClient ?e2 sample_service ?a))) ?a =
         (OK, [MutexLock, BuildClient ?a, OpenTable (kRedisTableName e2), MutexUnlock],
          sample_service\<lparr>client := Some (YBClient ?a),
            table := Some (YBTable (kRedisTableName e2)), yb_client_initialized := True\<rparr>)"
    by blast
  with b3 have c3: "SetUpYBClient sample_env (snd (snd (SetUpYBClient ?e2 sample_service ?a))) ?a =
       (OK, [MutexLock, BuildClient ?a, OpenTable ''.redis'', MutexUnlock], sample_ready)"
    by (simp add: sample_ready_def)
  have c4: "SetUpYBClient ?e1 sample_ready ?a = (OK, [MutexLock, MutexUnlock], sample_ready)"
    using t3 r by simp
  have c5: "filter is_setup_event
        (fst (projr (ValidateAndHandle sample_env sample_ready (Some (sample_table ! 0))
           (sample_call [''get'', ''k'']) \<lparr>cmd_args = [''get'', ''k'']\<rparr>))) = []"
    using SetUpYBClient_retries_until_initialized [of sample_ready sample_env ?a] r
      sample_dispatch_get
    by simp
  from u c1 c2 c3 r c4 c5 show ?thesis by blast
qed

lemma is_backend_call_simps [simp]:
  "is_backend_call (ReadAsync sess rop rcb)" "is_backend_call (Apply sess wop)"
  "is_backend_call (FlushAsync sess wcb)"
  "\<not> is_backend_call MutexLock" "\<not> is_backend_call MutexUnlock"
  "\<not> is_backend_call (BuildClient a)" "\<not> is_backend_call (OpenTable n)"
  "\<not> is_backend_call (LogError txt)" "\<not> is_backend_call (LogWarning txt)"
  "\<not> is_backend_call (NewSession ro)" "\<not> is_backend_call (SetTimeoutMillis sess ms)"
  "\<not> is_backend_call (SetFlushMode sess fm)" "\<not> is_backend_call NewRedisRead"
  "\<not> is_backend_call NewRedisWrite"
  "\<not> is_backend_call (GetPendingErrors sess)" "\<not> is_backend_call (Increment hist d)"
  "\<not> is_backend_call (RespondSuccess call r m)" "\<not> is_backend_call (RespondFailure call st m)"
  by (simp_all add: is_backend_call_def)

lemma SetUpYBClient_metrics:
  "SetUpYBClient e s a = (st, evs, s') \<Longrightarrow> metrics s' = metrics s"
  by (auto simp: SetUpYBClient_def Let_def split: if_splits)

lemma SetUpYBClient_no_backend_call:
  "SetUpYBClient e s a = (st, evs, s') \<Longrightarrow> filter is_backend_call evs = []"
  by (auto simp: SetUpYBClient_def Let_def split: if_splits)

lemma ValidateAndHandle_setup_failed:
  assumes "\<not> yb_client_initialized s"
    and "SetUpYBClient e s (yb_tier_master_addresses s) = (st, evs0, s0)"
    and "\<not> ok st" and "cmd_args c = cmd # rest"
  shows "ValidateAndHandle e s cmd_info call c =
     Inr (evs0 @ [RespondFailure call
             (STATUS ''RuntimeError''
                (c_str (''Could not open .redis table. '' @ env_ToString e st) @ '' : '' @ c_str cmd))
             (metrics s ''error'')], s0)"
  using assms SetUpYBClient_metrics [OF assms(2)]
  by (simp add: ValidateAndHandle_def RespondWithFailure_cons)

lemma ValidateAndHandle_setup_ok:
  assumes "\<not> yb_client_initialized s"
    and "SetUpYBClient e s (yb_tier_master_addresses s) = (st, evs0, s0)"
    and "ok st"
  shows "ValidateAndHandle e s cmd_info call c =
     (case HandleCurrentCommand e s0 cmd_info call c of
        Inl f \<Rightarrow> Inl f | Inr evs \<Rightarrow> Inr (evs0 @ evs, s0))"
  using assms by (simp add: ValidateAndHandle_def)

lemma ValidateAndHandle_ready:
  assumes "yb_client_initialized s \<or> ok st"
    and "SetUpYBClient e s (yb_tier_master_addresses s) = (st, evs0, s0)"
    and "(evs1, s1) = (if yb_client_initialized s then ([], s) else (evs0, s0))"
  shows "ValidateAndHandle e s cmd_info call c =
     (case HandleCurrentCommand e s1 cmd_info call c of
        Inl f \<Rightarrow> Inl f | Inr evs \<Rightarrow> Inr (evs1 @ evs, s1))"
    and "metrics s1 = metrics s"
    and "filter is_backend_call evs1 = []"
proof -
  show "ValidateAndHandle e s cmd_info call c =
     (case HandleCurrentCommand e s1 cmd_info call c of
        Inl f \<Rightarrow> Inl f | Inr evs \<Rightarrow> Inr (evs1 @ evs, s1))"
  proof (cases "yb_client_initialized s")
    case True
    with assms(3) show ?thesis
      by (auto simp: ValidateAndHandle_initialized split: sum.splits)
  next
    case False
    with assms show ?thesis
      by (auto simp: ValidateAndHandle_setup_ok split: sum.splits)
  qed
  show "metrics s1 = metrics s"
    using assms(3) SetUpYBClient_metrics [OF assms(2)] by (simp split: if_splits)
  show "filter is_backend_call evs1 = []"
    using assms(3) SetUpYBClient_no_backend_call [OF assms(2)] by (simp split: if_splits)
qed

lemma c_str_literals:
  "c_str ''Unsupported call.'' = ''Unsupported call.''"
  "c_str ''Too few arguments.'' = ''Too few arguments.''"
  "c_str ''Wrong number of arguments.'' = ''Wrong number of arguments.''"
  by (simp_all add: c_str_def)

lemma HandleCurrentCommand_unsupported:
  "cmd_args c = cmd # rest \<Longrightarrow>
   HandleCurrentCommand e s None call c =
     Inr [RespondFailure call (STATUS ''RuntimeError'' (''Unsupported call. : '' @ c_str cmd))
            (metrics s ''error'')]"
  by (simp add: HandleCurrentCommand_def RespondWithFailure_cons c_str_literals)

lemma HandleCurrentCommand_too_few:
  "cmd_args c = cmd # rest \<Longrightarrow> arity info < 0 \<Longrightarrow>
   int (length (cmd_args c)) < - arity info \<Longrightarrow>
   HandleCurrentCommand e s (Some info) call c =
     Inr [LogError (''Requested command '' @ cmd @ '' does not have enough arguments.''),
          RespondFailure call (STATUS ''RuntimeError'' (''Too few arguments. : '' @ c_str cmd))
            (metrics s ''error'')]"
  by (simp add: HandleCurrentCommand_def RespondWithFailure_cons c_str_literals after_def)

lemma HandleCurrentCommand_wrong_number:
  "cmd_args c = cmd # rest \<Longrightarrow> arity info > 0 \<Longrightarrow>
   int (length (cmd_args c)) \<noteq> arity info \<Longrightarrow>
   HandleCurrentCommand e s (Some info) call c =
     Inr [LogError (''Requested command '' @ cmd @ '' has wrong number of arguments.''),
          RespondFailure call (STATUS ''RuntimeError'' (''Wrong number of arguments. : '' @ c_str cmd))
            (metrics s ''error'')]"
  by (simp add: HandleCurrentCommand_def RespondWithFailure_cons c_str_literals after_def)

lemma HandleCurrentCommand_invoke:
  "\<not> (arity info < 0 \<and> int (length (cmd_args c)) < - arity info) \<Longrightarrow>
   \<not> (arity info > 0 \<and> int (length (cmd_args c)) \<noteq> arity info) \<Longrightarrow>
   HandleCurrentCommand e s (Some info) call c = invoke (function_ptr info) e s call c"
  by (auto simp: HandleCurrentCommand_def)

subsection \<open>The order of the checks\<close>

text \<open>
  C2. On a call with a command name \<open>cmd\<close>, where \<open>(st, evs0, s0)\<close> is what
  \<open>SetUpYBClient\<close> returns and \<open>(evs1, s1)\<close> are the events and the service after
  the initialisation step (none and the service itself when the flag is set). When the flag
  is unset and the set-up fails, the call is answered with the failure
  \<^verbatim>\<open>Could not open .redis table.\<close> and the status, whatever the resolved command is, known
  or not, and whatever its arity. When the client is initialised and the command is not
  resolved, the answer is the failure \<^verbatim>\<open>Unsupported call.\<close>, whatever the number of
  arguments. When the client is initialised, the command is known and its arity contract holds,
  the bound handler is invoked.
\<close>

theorem dispatch_checks_in_order:
  assumes "cmd_args c = cmd # rest"
    and "SetUpYBClient e s (yb_tier_master_addresses s) = (st, evs0, s0)"
    and "(evs1, s1) = (if yb_client_initialized s then ([], s) else (evs0, s0))"
  shows "(\<not> yb_client_initialized s \<and> \<not> ok st \<longrightarrow>
           (\<forall>cmd_info. ValidateAndHandle e s cmd_info call c =
              Inr (evs0 @ [RespondFailure call
                     (STATUS ''RuntimeError''
                        (c_str (''Could not open .redis table. '' @ env_ToString e st)
                         @ '' : '' @ c_str cmd))
                     (metrics s ''error'')], s0)))
       \<and> (yb_client_initialized s \<or> ok st \<longrightarrow>
            ValidateAndHandle e s None call c =
              Inr (evs1 @ [RespondFailure call
                     (STATUS ''RuntimeError'' (''Unsupported call. : '' @ c_str cmd))
                     (metrics s ''error'')], s1))
       \<and> (yb_client_initialized s \<or> ok st \<longrightarrow>
            (\<forall>info. \<not> (arity info < 0 \<and> int (length (cmd_args c)) < - arity info)
                \<and> \<not> (arity info > 0 \<and> int (length (cmd_args c)) \<noteq> arity info) \<longrightarrow>
              ValidateAndHandle e s (Some info) call c =
                (case invoke (function_ptr info) e s1 call c of
                   Inl f \<Rightarrow> Inl f
                 | Inr evs \<Rightarrow> Inr (evs1 @ evs, s1))))"
proof -
  have failed: "ValidateAndHandle e s cmd_info call c =
              Inr (evs0 @ [RespondFailure call
                     (STATUS ''RuntimeError''
                        (c_str (''Could not open .redis table. '' @ env_ToString e st)
                         @ '' : '' @ c_str cmd))
                     (metrics s ''error'')], s0)"
    if "\<not> yb_client_initialized s" and "\<not> ok st" for cmd_info
    using that assms(1,2) by (simp add: ValidateAndHandle_setup_failed)
  have unknown: "ValidateAndHandle e s None call c =
              Inr (evs1 @ [RespondFailure call
                     (STATUS ''RuntimeError'' (''Unsupported call. : '' @ c_str cmd))
                     (metrics s ''error'')], s1)"
    if r: "yb_client_initialized s \<or> ok st"
    using ValidateAndHandle_ready [OF r assms(2,3)] assms(1)
    by (simp add: HandleCurrentCommand_unsupported)
  have known: "ValidateAndHandle e s (Some info) call c =
                (case invoke (function_ptr info) e s1 call c of
                   Inl f \<Rightarrow> Inl f
                 | Inr evs \<Rightarrow> Inr (evs1 @ evs, s1))"
    if r: "yb_client_initialized s \<or> ok st"
      and "\<not> (arity info < 0 \<and> int (length (cmd_args c)) < - arity info)"
      and "\<not> (arity info > 0 \<and> int (length (cmd_args c)) \<noteq> arity info)" for info
    using ValidateAndHandle_ready(1) [OF r assms(2,3)] that(2,3)
    by (simp add: HandleCurrentCommand_invoke)
  show ?thesis
    using failed unknown known by blast
qed

lemma sample_setup:
  "yb_tier_master_addresses sample_service = ''127.0.0.1:7100''"
  "yb_tier_master_addresses sample_ready = ''127.0.0.1:7100''"
  "\<not> yb_client_initialized sample_service"
  "yb_client_initialized sample_ready"
  "SetUpYBClient sample_env sample_ready ''127.0.0.1:7100'' =
     (OK, [MutexLock, MutexUnlock], sample_ready)"
  "SetUpYBClient sample_env sample_service ''127.0.0.1:7100'' =
     (OK, [MutexLock, BuildClient ''127.0.0.1:7100'', OpenTable ''.redis'', MutexUnlock],
      sample_ready)"
  "SetUpYBClient (sample_env\<lparr>env_Build := \<lambda>a. STATUS ''NetworkError'' ''unreachable''\<rparr>)
     sample_service ''127.0.0.1:7100'' =
     (STATUS ''NetworkError'' ''unreachable'',
      [MutexLock, BuildClient ''127.0.0.1:7100'', MutexUnlock], sample_service)"
  "metrics sample_ready = metrics sample_service"
  "client sample_ready = Some (YBClient ''127.0.0.1:7100'')"
  "table sample_ready = Some (YBTable ''.redis'')"
  by (simp_all add: sample_service_def sample_ready_def SetUpYBClient_def sample_env_def Let_def)

theorem dispatch_checks_in_order_witness:
  "ValidateAndHandle (sample_env\<lparr>env_Build := \<lambda>a. STATUS ''NetworkError'' ''unreachable''\<rparr>)
     sample_service None (sample_call [''set'']) \<lparr>cmd_args = [''set'']\<rparr> =
     Inr ([MutexLock, BuildClient ''127.0.0.1:7100'', MutexUnlock,
           RespondFailure (sample_call [''set''])
             (STATUS ''RuntimeError''
                ''Could not open .redis table. NetworkError: unreachable : set'')
             \<lparr>handler_latency = Some (Instantiate ''error'')\<rparr>], sample_service)
   \<and> ValidateAndHandle (sample_env\<lparr>env_Build := \<lambda>a. STATUS ''NetworkError'' ''unreachable''\<rparr>)
     sample_service (Some (sample_table ! 5)) (sample_call [''set'']) \<lparr>cmd_args = [''set'']\<rparr> =
     Inr ([MutexLock, BuildClient ''127.0.0.1:7100'', MutexUnlock,
           RespondFailure (sample_call [''set''])
             (STATUS ''RuntimeError''
                ''Could not open .redis table. NetworkError: unreachable : set'')
             \<lparr>handler_latency = Some (Instantiate ''error'')\<rparr>], sample_service)
   \<and> ValidateAndHandle sample_env sample_service None
       (sample_call [''FOO'', ''bar'']) \<lparr>cmd_args = [''FOO'', ''bar'']\<rparr> =
     Inr ([MutexLock, BuildClient ''127.0.0.1:7100'', OpenTable ''.redis'', MutexUnlock,
           RespondFailure (sample_call [''FOO'', ''bar''])
             (STATUS ''RuntimeError'' ''Unsupported call. : FOO'')
             \<lparr>handler_latency = Some (Instantiate ''error'')\<rparr>], sample_ready)
   \<and> ValidateAndHandle sample_env sample_ready (Some (sample_table ! 0))
       (sample_call [''get'', ''k'']) \<lparr>cmd_args = [''get'', ''k'']\<rparr> =
     (case invoke GetCommandPtr sample_env sample_ready
             (sample_call [''get'', ''k'']) \<lparr>cmd_args = [''get'', ''k'']\<rparr> of
        Inl f \<Rightarrow> Inl f | Inr evs \<Rightarrow> Inr ([] @ evs, sample_ready))"
proof -
  let ?eF = "sample_env\<lparr>env_Build := \<lambda>a. STATUS ''NetworkError'' ''unreachable''\<rparr>"
  have a1: "cmd_args \<lparr>cmd_args = [''set'']\<rparr> = ''set'' # []" by simp
  have s1: "SetUpYBClient ?eF sample_service (yb_tier_master_addresses sample_service) =
      (STATUS ''NetworkError'' ''unreachable'',
       [MutexLock, BuildClient ''127.0.0.1:7100'', MutexUnlock], sample_service)"
    by (simp add: sample_setup)
  have p1: "([MutexLock, BuildClient ''127.0.0.1:7100'', MutexUnlock], sample_service) =
      (if yb_client_initialized sample_service then ([], sample_service)
       else ([MutexLock, BuildClient ''127.0.0.1:7100'', MutexUnlock], sample_service))"
    by (simp add: sample_setup)
  have env1: "env_ToString ?eF = sample_ToString" by (simp add: sample_env_def)
  have c1: "ValidateAndHandle ?eF sample_service cmd_info (sample_call [''set''])
       \<lparr>cmd_args = [''set'']\<rparr> =
     Inr ([MutexLock, BuildClient ''127.0.0.1:7100'', MutexUnlock,
           RespondFailure (sample_call [''set''])
             (STATUS ''RuntimeError''
                ''Could not open .redis table. NetworkError: unreachable : set'')
             \<lparr>handler_latency = Some (Instantiate ''error'')\<rparr>], sample_service)" for cmd_info
    using dispatch_checks_in_order [OF a1 s1 p1, of "sample_call [''set'']"]
    by (simp add: sample_setup env1 c_str_def sample_ToString_def sample_metrics)
  have a2: "cmd_args \<lparr>cmd_args = [''FOO'', ''bar'']\<rparr> = ''FOO'' # [''bar'']" by simp
  have s2: "SetUpYBClient sample_env sample_service (yb_tier_master_addresses sample_service) =
      (OK, [MutexLock, BuildClient ''127.0.0.1:7100'', OpenTable ''.redis'', MutexUnlock],
       sample_ready)"
    by (simp add: sample_setup)
  have p2: "([MutexLock, BuildClient ''127.0.0.1:7100'', OpenTable ''.redis'', MutexUnlock],
       sample_ready) =
      (if yb_client_initialized sample_service then ([], sample_service)
       else ([MutexLock, BuildClient ''127.0.0.1:7100'', OpenTable ''.redis'', MutexUnlock],
             sample_ready))"
    by (simp add: sample_setup)
  have c2: "ValidateAndHandle sample_env sample_service None
       (sample_call [''FOO'', ''bar'']) \<lparr>cmd_args = [''FOO'', ''bar'']\<rparr> =
     Inr ([MutexLock, BuildClient ''127.0.0.1:7100'', OpenTable ''.redis'', MutexUnlock,
           RespondFailure (sample_call [''FOO'', ''bar''])
             (STATUS ''RuntimeError'' ''Unsupported call. : FOO'')
             \<lparr>handler_latency = Some (Instantiate ''error'')\<rparr>], sample_ready)"
    using dispatch_checks_in_order [OF a2 s2 p2, of "sample_call [''FOO'', ''bar'']"]
    by (simp add: sample_metrics c_str_def)
  have a3: "cmd_args \<lparr>cmd_args = [''get'', ''k'']\<rparr> = ''get'' # [''k'']" by simp
  have s3: "SetUpYBClient sample_env sample_ready (yb_tier_master_addresses sample_ready) =
      (OK, [MutexLock, MutexUnlock], sample_ready)"
    by (simp add: sample_setup)
  have p3: "([], sample_ready) =
      (if yb_client_initialized sample_ready then ([], sample_ready)
       else ([MutexLock, MutexUnlock], sample_ready))"
    by (simp add: sample_setup)
  have c3: "ValidateAndHandle sample_env sample_ready (Some (sample_table ! 0))
       (sample_call [''get'', ''k'']) \<lparr>cmd_args = [''get'', ''k'']\<rparr> =
     (case invoke GetCommandPtr sample_env sample_ready
             (sample_call [''get'', ''k'']) \<lparr>cmd_args = [''get'', ''k'']\<rparr> of
        Inl f \<Rightarrow> Inl f | Inr evs \<Rightarrow> Inr ([] @ evs, sample_ready))"
    using dispatch_checks_in_order [OF a3 s3 p3, of "sample_call [''get'', ''k'']"]
    by (simp add: sample_setup sample_table_def)
  from c1 c2 c3 show ?thesis by blast
qed


text \<open>
  C3. With the client initialised and a recognised command \<open>info\<close>: with a negative
  arity and fewer arguments than its absolute value, the call is answered with the failure
  \<^verbatim>\<open>Too few arguments.\<close>; with a positive arity and another number of arguments, with the
  failure \<^verbatim>\<open>Wrong number of arguments.\<close>; in both cases the trace submits no operation to
  the backend. Otherwise the handler is invoked.
\<close>

theorem arity_contract_enforced:
  assumes "cmd_args c = cmd # rest"
    and "SetUpYBClient e s (yb_tier_master_addresses s) = (st, evs0, s0)"
    and "(evs1, s1) = (if yb_client_initialized s then ([], s) else (evs0, s0))"
    and "yb_client_initialized s \<or> ok st"
  shows "(arity info < 0 \<and> int (length (cmd_args c)) < - arity info \<longrightarrow>
           ValidateAndHandle e s (Some info) call c =
             Inr (evs1 @ [LogError (''Requested command '' @ cmd
                                     @ '' does not have enough arguments.''),
                          RespondFailure call
                            (STATUS ''RuntimeError'' (''Too few arguments. : '' @ c_str cmd))
                            (metrics s ''error'')], s1)
           \<and> filter is_backend_call
                (evs1 @ [LogError (''Requested command '' @ cmd
                                     @ '' does not have enough arguments.''),
                          RespondFailure call
                            (STATUS ''RuntimeError'' (''Too few arguments. : '' @ c_str cmd))
                            (metrics s ''error'')]) = [])
       \<and> (arity info > 0 \<and> int (length (cmd_args c)) \<noteq> arity info \<longrightarrow>
           ValidateAndHandle e s (Some info) call c =
             Inr (evs1 @ [LogError (''Requested command '' @ cmd
                                     @ '' has wrong number of arguments.''),
                          RespondFailure call
                            (STATUS ''RuntimeError'' (''Wrong number of arguments. : '' @ c_str cmd))
                            (metrics s ''error'')], s1)
           \<and> filter is_backend_call
                (evs1 @ [LogError (''Requested command '' @ cmd
                                     @ '' has wrong number of arguments.''),
                          RespondFailure call
                            (STATUS ''RuntimeError'' (''Wrong number of arguments. : '' @ c_str cmd))
                            (metrics s ''error'')]) = [])
       \<and> (\<not> (arity info < 0 \<and> int (length (cmd_args c)) < - arity info)
            \<and> \<not> (arity info > 0 \<and> int (length (cmd_args c)) \<noteq> arity info) \<longrightarrow>
           ValidateAndHandle e s (Some info) call c =
             (case invoke (function_ptr info) e s1 call c of
                Inl f \<Rightarrow> Inl f
              | Inr evs \<Rightarrow> Inr (evs1 @ evs, s1)))"
proof -
  note ready = ValidateAndHandle_ready [OF assms(4) assms(2,3)]
  have few: "ValidateAndHandle e s (Some info) call c =
             Inr (evs1 @ [LogError (''Requested command '' @ cmd
                                     @ '' does not have enough arguments.''),
                          RespondFailure call
                            (STATUS ''RuntimeError'' (''Too few arguments. : '' @ c_str cmd))
                            (metrics s ''error'')], s1)"
    if "arity info < 0" and "int (length (cmd_args c)) < - arity info"
    using ready(1,2) HandleCurrentCommand_too_few [OF assms(1) that] by simp
  have wrong: "ValidateAndHandle e s (Some info) call c =
             Inr (evs1 @ [LogError (''Requested command '' @ cmd
                                     @ '' has wrong number of arguments.''),
                          RespondFailure call
                            (STATUS ''RuntimeError'' (''Wrong number of arguments. : '' @ c_str cmd))
                            (metrics s ''error'')], s1)"
    if "arity info > 0" and "int (length (cmd_args c)) \<noteq> arity info"
    using ready(1,2) HandleCurrentCommand_wrong_number [OF assms(1) that] by simp
  have handler: "ValidateAndHandle e s (Some info) call c =
             (case invoke (function_ptr info) e s1 call c of
                Inl f \<Rightarrow> Inl f
              | Inr evs \<Rightarrow> Inr (evs1 @ evs, s1))"
    if "\<not> (arity info < 0 \<and> int (length (cmd_args c)) < - arity info)"
      and "\<not> (arity info > 0 \<and> int (length (cmd_args c)) \<noteq> arity info)"
    using ready(1) that by (simp add: HandleCurrentCommand_invoke)
  have quiet: "filter is_backend_call (evs1 @ [LogError line, RespondFailure call x m]) = []"
    for line x m
    using ready(3) by simp
  show ?thesis
    using few wrong handler quiet by blast
qed

theorem arity_contract_enforced_witness:
  "ValidateAndHandle sample_env sample_ready (Some (sample_table ! 5))
       (sample_call [''set'', ''k'']) \<lparr>cmd_args = [''set'', ''k'']\<rparr> =
     Inr ([LogError ''Requested command set does not have enough arguments.'',
           RespondFailure (sample_call [''set'', ''k''])
             (STATUS ''RuntimeError'' ''Too few arguments. : set'')
             \<lparr>handler_latency = Some (Instantiate ''error'')\<rparr>], sample_ready)
   \<and> ValidateAndHandle sample_env sample_ready (Some (sample_table ! 1))
       (sample_call [''hget'', ''k'']) \<lparr>cmd_args = [''hget'', ''k'']\<rparr> =
     Inr ([LogError ''Requested command hget has wrong number of arguments.'',
           RespondFailure (sample_call [''hget'', ''k''])
             (STATUS ''RuntimeError'' ''Wrong number of arguments. : hget'')
             \<lparr>handler_latency = Some (Instantiate ''error'')\<rparr>], sample_ready)
   \<and> ValidateAndHandle sample_env sample_ready (Some (sample_table ! 0))
       (sample_call [''get'', ''k'']) \<lparr>cmd_args = [''get'', ''k'']\<rparr> =
     (case invoke GetCommandPtr sample_env sample_ready
             (sample_call [''get'', ''k'']) \<lparr>cmd_args = [''get'', ''k'']\<rparr> of
        Inl f \<Rightarrow> Inl f | Inr evs \<Rightarrow> Inr ([] @ evs, sample_ready))"
proof -
  have s: "SetUpYBClient sample_env sample_ready (yb_tier_master_addresses sample_ready) =
      (OK, [MutexLock, MutexUnlock], sample_ready)"
    by (simp add: sample_setup)
  have p: "([], sample_ready) =
      (if yb_client_initialized sample_ready then ([], sample_ready)
       else ([MutexLock, MutexUnlock], sample_ready))"
    by (simp add: sample_setup)
  have r: "yb_client_initialized sample_ready \<or> ok OK"
    by simp
  have a1: "cmd_args \<lparr>cmd_args = [''set'', ''k'']\<rparr> = ''set'' # [''k'']" by simp
  have a2: "cmd_args \<lparr>cmd_args = [''hget'', ''k'']\<rparr> = ''hget'' # [''k'']" by simp
  have a3: "cmd_args \<lparr>cmd_args = [''get'', ''k'']\<rparr> = ''get'' # [''k'']" by simp
  have c1: "ValidateAndHandle sample_env sample_ready (Some (sample_table ! 5))
       (sample_call [''set'', ''k'']) \<lparr>cmd_args = [''set'', ''k'']\<rparr> =
     Inr ([LogError ''Requested command set does not have enough arguments.'',
           RespondFailure (sample_call [''set'', ''k''])
             (STATUS ''RuntimeError'' ''Too few arguments. : set'')
             \<lparr>handler_latency = Some (Instantiate ''error'')\<rparr>], sample_ready)"
    using arity_contract_enforced [OF a1 s p r, of "sample_table ! 5" "sample_call [''set'', ''k'']"]
    by (simp add: sample_table_def sample_setup sample_metrics c_str_def)
  have c2: "ValidateAndHandle sample_env sample_ready (Some (sample_table ! 1))
       (sample_call [''hget'', ''k'']) \<lparr>cmd_args = [''hget'', ''k'']\<rparr> =
     Inr ([LogError ''Requested command hget has wrong number of arguments.'',
           RespondFailure (sample_call [''hget'', ''k''])
             (STATUS ''RuntimeError'' ''Wrong number of arguments. : hget'')
             \<lparr>handler_latency = Some (Instantiate ''error'')\<rparr>], sample_ready)"
    using arity_contract_enforced [OF a2 s p r, of "sample_table ! 1" "sample_call [''hget'', ''k'']"]
    by (simp add: sample_table_def sample_setup sample_metrics c_str_def)
  have c3: "ValidateAndHandle sample_env sample_ready (Some (sample_table ! 0))
       (sample_call [''get'', ''k'']) \<lparr>cmd_args = [''get'', ''k'']\<rparr> =
     (case invoke GetCommandPtr sample_env sample_ready
             (sample_call [''get'', ''k'']) \<lparr>cmd_args = [''get'', ''k'']\<rparr> of
        Inl f \<Rightarrow> Inl f | Inr evs \<Rightarrow> Inr ([] @ evs, sample_ready))"
    using arity_contract_enforced [OF a3 s p r, of "sample_table ! 0" "sample_call [''get'', ''k'']"]
    by (simp add: sample_table_def)
  from c1 c2 c3 show ?thesis by blast
qed

subsection \<open>Parse failures\<close>

text \<open>
  C6. In the read and in the write pipeline, with the client and the table in place, when
  the parser of the command returns a status that is not OK, the call is answered at once
  with the failure that carries the message of that status, and the trace holds no
  \<open>ReadAsync\<close>, no \<open>Apply\<close> and no \<open>FlushAsync\<close>: the session is created and
  configured, the operation allocated, and the response sent. Every read command runs
  \<open>ReadCommand\<close> and every write command \<open>WriteCommand\<close>, each with its own parser.
\<close>

theorem parse_failure_no_backend_call:
  assumes "client s = Some cl" and "table s = Some t" and "cmd_args c = cmd # rest"
    and "ok (env_SetFlushMode e (YBSession True) MANUAL_FLUSH)"
    and "ok (env_SetFlushMode e (YBSession False) MANUAL_FLUSH)"
    and "rparse (YBRedisReadOp_new t) (cmd_args c) = (rst, rop)" and "\<not> ok rst"
    and "wparse (YBRedisWriteOp_new t) (cmd_args c) = (wst, wop)" and "\<not> ok wst"
  shows "(\<exists>evs. ReadCommand e s call c rname rparse = Inr evs
           \<and> evs = [NewSession True,
                    SetTimeoutMillis (YBSession True) (FLAGS_redis_service_yb_client_timeout_millis e),
                    SetFlushMode (YBSession True) MANUAL_FLUSH, NewRedisRead,
                    RespondFailure call
                      (STATUS ''RuntimeError'' (c_str (message rst) @ '' : '' @ c_str cmd))
                      (metrics s ''error'')]
           \<and> filter is_backend_call evs = [])
       \<and> (\<exists>evs. WriteCommand e s call c wname wparse = Inr evs
           \<and> evs = [NewSession False,
                    SetTimeoutMillis (YBSession False) (FLAGS_redis_service_yb_client_timeout_millis e),
                    SetFlushMode (YBSession False) MANUAL_FLUSH, NewRedisWrite,
                    RespondFailure call
                      (STATUS ''RuntimeError'' (c_str (message wst) @ '' : '' @ c_str cmd))
                      (metrics s ''error'')]
           \<and> filter is_backend_call evs = [])"
proof -
  have r: "ReadCommand e s call c rname rparse =
      Inr [NewSession True,
           SetTimeoutMillis (YBSession True) (FLAGS_redis_service_yb_client_timeout_millis e),
           SetFlushMode (YBSession True) MANUAL_FLUSH, NewRedisRead,
           RespondFailure call
             (STATUS ''RuntimeError'' (c_str (message rst) @ '' : '' @ c_str cmd))
             (metrics s ''error'')]"
    using assms(1-4,6,7)
    by (simp add: ReadCommand_def ConfigureSession_def after_def RespondWithFailure_cons Let_def)
  have w: "WriteCommand e s call c wname wparse =
      Inr [NewSession False,
           SetTimeoutMillis (YBSession False) (FLAGS_redis_service_yb_client_timeout_millis e),
           SetFlushMode (YBSession False) MANUAL_FLUSH, NewRedisWrite,
           RespondFailure call
             (STATUS ''RuntimeError'' (c_str (message wst) @ '' : '' @ c_str cmd))
             (metrics s ''error'')]"
    using assms(1-3,5,8,9)
    by (simp add: WriteCommand_def ConfigureSession_def after_def RespondWithFailure_cons Let_def)
  show ?thesis
    unfolding r w by simp
qed

theorem parse_failure_no_backend_call_witness:
  "sample_parse_read (YBRedisReadOp_new (YBTable ''.redis'')) [''get'', ''''] =
     (STATUS ''InvalidCommand'' ''empty argument'', YBRedisReadOp_new (YBTable ''.redis''))
   \<and> \<not> ok (STATUS ''InvalidCommand'' ''empty argument'')
   \<and> ReadCommand sample_env sample_ready (sample_call [''get'', ''''])
        \<lparr>cmd_args = [''get'', '''']\<rparr> ''get'' sample_parse_read =
       Inr [NewSession True, SetTimeoutMillis (YBSession True) 60000,
            SetFlushMode (YBSession True) MANUAL_FLUSH, NewRedisRead,
            RespondFailure (sample_call [''get'', ''''])
              (STATUS ''RuntimeError'' ''empty argument : get'')
              \<lparr>handler_latency = Some (Instantiate ''error'')\<rparr>]
   \<and> WriteCommand sample_env sample_ready (sample_call [''get'', ''''])
        \<lparr>cmd_args = [''get'', '''']\<rparr> ''set'' sample_parse_write =
       Inr [NewSession False, SetTimeoutMillis (YBSession False) 60000,
            SetFlushMode (YBSession False) MANUAL_FLUSH, NewRedisWrite,
            RespondFailure (sample_call [''get'', ''''])
              (STATUS ''RuntimeError'' ''empty argument : get'')
              \<lparr>handler_latency = Some (Instantiate ''error'')\<rparr>]"
proof -
  let ?c = "\<lparr>cmd_args = [''get'', '''']\<rparr>"
  have a: "cmd_args ?c = ''get'' # ['''']" by simp
  have f: "ok (env_SetFlushMode sample_env (YBSession True) MANUAL_FLUSH)"
    "ok (env_SetFlushMode sample_env (YBSession False) MANUAL_FLUSH)"
    by (simp_all add: sample_env_def)
  have pr: "sample_parse_read (YBRedisReadOp_new (YBTable ''.redis'')) (cmd_args ?c) =
     (STATUS ''InvalidCommand'' ''empty argument'', YBRedisReadOp_new (YBTable ''.redis''))"
    by (simp add: sample_parse_read_def)
  have pw: "sample_parse_write (YBRedisWriteOp_new (YBTable ''.redis'')) (cmd_args ?c) =
     (STATUS ''InvalidCommand'' ''empty argument'', YBRedisWriteOp_new (YBTable ''.redis''))"
    by (simp add: sample_parse_write_def)
  have n: "\<not> ok (STATUS ''InvalidCommand'' ''empty argument'')" by simp
  from parse_failure_no_backend_call
    [where rparse = sample_parse_read and wparse = sample_parse_write
       and call = "sample_call [''get'', '''']" and rname = "''get''" and wname = "''set''",
     OF sample_setup(9) sample_setup(10) a f pr n pw n] pr n
  show ?thesis
    by (simp add: sample_env_def sample_setup sample_metrics c_str_def)
qed

subsection \<open>Resolving a command\<close>

lemma setup_methods_Inr:
  "setup_methods tbl ms idx s = Inr s' \<Longrightarrow>
   map name (take (length ms) (drop idx tbl)) = ms"
proof (induction ms arbitrary: idx s)
  case Nil
  then show ?case by simp
next
  case (Cons m rest)
  from Cons.prems obtain s1 where
    step: "SETUP_METRICS_FOR_METHOD tbl m idx s = Inr s1"
    and run: "setup_methods tbl rest (idx + 1) s1 = Inr s'"
    by (auto split: sum.splits)
  from step have lt: "idx < length tbl" and nm: "m = name (tbl ! idx)"
    by (auto simp: SETUP_METRICS_FOR_METHOD_def split: if_splits)
  from lt have dr: "drop idx tbl = tbl ! idx # drop (Suc idx) tbl"
    by (simp add: Cons_nth_drop_Suc)
  from Cons.IH [OF run] have "map name (take (length rest) (drop (Suc idx) tbl)) = rest"
    by simp
  then show ?case
    using nm dr by simp
qed

lemma length_method_names: "length method_names = 13"
  by (simp add: method_names_def)

lemma distinct_method_names: "distinct method_names"
  by (simp add: method_names_def)

lemma lowercase_method_names: "list_all (\<lambda>n. ToLowerCase n = n) method_names"
  by code_simp

lemma RedisServiceImpl_new_Inr:
  assumes "RedisServiceImpl_new k tbl addresses = Inr s0"
  shows "k = 13" and "map name tbl = method_names"
    and "command_name_to_info_map s0 = map_of (rev (zip method_names tbl))"
proof -
  from assms obtain s1 where kl: "k = length tbl"
    and run: "setup_methods tbl method_names 0
       \<lparr>yb_tier_master_addresses = addresses, yb_client_initialized = False,
        client = None, table = None, command_name_to_info_map = Map.empty,
        metrics = (\<lambda>k. \<lparr>handler_latency = None\<rparr>)\<rparr> = Inr s1"
    and km: "k = length method_names"
    by (auto simp: RedisServiceImpl_new_def PopulateHandlers_def split: if_splits sum.splits)
  from km show k: "k = 13" by (simp add: length_method_names)
  from setup_methods_Inr [OF run] kl k show names: "map name tbl = method_names"
    by (simp add: length_method_names)
  from assms k RedisServiceImpl_new_ok [OF names, of addresses]
  show "command_name_to_info_map s0 = map_of (rev (zip method_names tbl))"
    by auto
qed

lemma registry_lookup:
  assumes "map name tbl = method_names" and "i < length tbl"
  shows "map_of (rev (zip method_names tbl)) (name (tbl ! i)) = Some (tbl ! i)"
proof -
  from assms(1) have len: "length method_names = length tbl"
    by (metis length_map)
  let ?j = "length tbl - Suc i"
  have j: "?j < length tbl" using assms(2) by simp
  have "map_of (zip (rev method_names) (rev tbl)) (rev method_names ! ?j) = Some (rev tbl ! ?j)"
    by (rule map_of_zip_nth) (simp_all add: len distinct_method_names j)
  moreover have "rev method_names ! ?j = method_names ! i"
    using assms(2) len by (simp add: rev_nth)
  moreover have "rev tbl ! ?j = tbl ! i"
    using assms(2) by (simp add: rev_nth)
  moreover have "method_names ! i = name (tbl ! i)"
    using assms by (metis nth_map)
  ultimately show ?thesis
    by (simp add: zip_rev len)
qed

lemma same_letter_tolower:
  assumes "same_letter a b"
  shows "ascii_tolower a = ascii_tolower b"
proof -
  have up: "ascii_tolower x = y \<and> ascii_tolower y = y"
    if "65 \<le> (of_char x :: nat)" and "(of_char x :: nat) \<le> 90"
      and "(of_char y :: nat) = of_char x + 32" for x y
  proof -
    have "char_of ((of_char x :: nat) + 32) = char_of (of_char y :: nat)"
      using that(3) by simp
    then have "ascii_tolower x = y"
      using that(1,2) by (simp add: ascii_tolower_def)
    moreover have "ascii_tolower y = y"
      using that by (simp add: ascii_tolower_def)
    ultimately show ?thesis by simp
  qed
  from assms consider "a = b"
    | "65 \<le> (of_char a :: nat)" "(of_char a :: nat) \<le> 90" "(of_char b :: nat) = of_char a + 32"
    | "65 \<le> (of_char b :: nat)" "(of_char b :: nat) \<le> 90" "(of_char a :: nat) = of_char b + 32"
    by (auto simp: same_letter_def)
  then show ?thesis
  proof cases
    case 1
    then show ?thesis by simp
  next
    case 2
    from up [OF 2] show ?thesis by simp
  next
    case 3
    from up [OF 3] show ?thesis by simp
  qed
qed

lemma casing_ToLowerCase:
  "differs_in_casing_only x y \<Longrightarrow> ToLowerCase x = ToLowerCase y"
  unfolding differs_in_casing_only_def ToLowerCase_def
  by (induction rule: list_all2_induct) (simp_all add: same_letter_tolower)

text \<open>
  C8. \<open>FetchHandler\<close> lower-cases the command name before the lookup: two argument
  vectors whose first elements differ in letter casing only resolve alike, whatever their
  other arguments; a name whose lower-cased form is registered resolves to the registered
  \<open>RedisCommandInfo\<close>; and on a service built by the constructor from a table, every
  casing of the name of an entry of the table resolves to that entry.
\<close>

theorem FetchHandler_case_insensitive:
  assumes "differs_in_casing_only x y"
  shows "FetchHandler s (x # xs) = FetchHandler s (y # ys)
       \<and> (\<forall>info. command_name_to_info_map s (ToLowerCase y) = Some info \<longrightarrow>
             FetchHandler s (x # xs) = Inr ([], Some info))
       \<and> (\<forall>k tbl addresses s0 i.
             RedisServiceImpl_new k tbl addresses = Inr s0
             \<and> command_name_to_info_map s = command_name_to_info_map s0
             \<and> i < length tbl \<and> y = name (tbl ! i) \<longrightarrow>
             FetchHandler s (x # xs) = Inr ([], Some (tbl ! i)))"
proof -
  have low: "ToLowerCase x = ToLowerCase y"
    by (rule casing_ToLowerCase [OF assms])
  have same: "FetchHandler s (x # xs) = FetchHandler s (y # ys)"
    by (simp add: FetchHandler_def low)
  have found: "FetchHandler s (x # xs) = Inr ([], Some info)"
    if "command_name_to_info_map s (ToLowerCase y) = Some info" for info
    using that by (simp add: FetchHandler_def low)
  have entry: "FetchHandler s (x # xs) = Inr ([], Some (tbl ! i))"
    if new: "RedisServiceImpl_new k tbl addresses = Inr s0"
      and m: "command_name_to_info_map s = command_name_to_info_map s0"
      and i: "i < length tbl" and y: "y = name (tbl ! i)"
    for k tbl addresses s0 i
  proof -
    note built = RedisServiceImpl_new_Inr [OF new]
    have "name (tbl ! i) \<in> set method_names"
      using built(2) i by (metis nth_map nth_mem length_map)
    with lowercase_method_names have "ToLowerCase y = y"
      unfolding y by (simp add: list_all_iff)
    moreover have "command_name_to_info_map s y = Some (tbl ! i)"
      unfolding y m built(3) by (rule registry_lookup [OF built(2) i])
    ultimately show ?thesis
      by (simp add: found)
  qed
  show ?thesis
    using same found entry by blast
qed

theorem FetchHandler_case_insensitive_witness:
  "differs_in_casing_only ''GeT'' ''get''
   \<and> RedisServiceImpl_new 13 sample_table ''127.0.0.1:7100'' = Inr sample_service
   \<and> FetchHandler sample_ready [''GeT'', ''k''] = FetchHandler sample_ready [''get'', ''other'']
   \<and> FetchHandler sample_ready [''GeT'', ''k''] = Inr ([], Some (sample_table ! 0))"
proof -
  have d: "differs_in_casing_only ''GeT'' ''get''"
    by (simp add: differs_in_casing_only_def same_letter_def)
  have m: "command_name_to_info_map sample_ready = command_name_to_info_map sample_service"
    by (simp add: sample_ready_def)
  have i: "0 < length sample_table" "''get'' = name (sample_table ! 0)"
    by (simp_all add: sample_table_def)
  from FetchHandler_case_insensitive [OF d, of sample_ready "[''k'']" "[''other'']"]
    sample_new m i d
  show ?thesis by blast
qed

subsection \<open>The metric a read command retains\<close>

lemma ReadCommand_callback:
  assumes "ReadCommand e s call c command_name parse = Inr evs"
    and "ReadAsync session rop cb \<in> set evs"
  shows "read_metrics cb = metrics s command_name"
    and "read_metrics_internal cb = metrics s ''get_internal''"
    and "read_redis_call cb = call"
proof -
  obtain st rop' where p: "parse (YBRedisReadOp_new (the (table s))) (cmd_args c) = (st, rop')"
    by (cases "parse (YBRedisReadOp_new (the (table s))) (cmd_args c)") auto
  have "read_metrics cb = metrics s command_name
      \<and> read_metrics_internal cb = metrics s ''get_internal'' \<and> read_redis_call cb = call"
  proof (cases "ok st")
    case True
    with assms p show ?thesis
      by (auto simp: ReadCommand_def after_def ConfigureSession_def Let_def
          split: option.splits if_splits)
  next
    case False
    with assms p show ?thesis
      by (auto simp: ReadCommand_def after_def ConfigureSession_def Let_def
          RespondWithFailure_def split: option.splits if_splits list.splits)
  qed
  then show "read_metrics cb = metrics s command_name"
    and "read_metrics_internal cb = metrics s ''get_internal''"
    and "read_redis_call cb = call"
    by simp_all
qed

lemma RedisServiceImpl_new_metrics:
  assumes "RedisServiceImpl_new k tbl addresses = Inr s0"
  shows "metrics s0 ''get'' = \<lparr>handler_latency = Some (Instantiate ''get'')\<rparr>"
    and "metrics s0 ''hget'' = \<lparr>handler_latency = Some (Instantiate ''hget'')\<rparr>"
    and "metrics s0 ''strlen'' = \<lparr>handler_latency = Some (Instantiate ''strlen'')\<rparr>"
    and "metrics s0 ''exists'' = \<lparr>handler_latency = Some (Instantiate ''exists'')\<rparr>"
    and "metrics s0 ''getrange'' = \<lparr>handler_latency = Some (Instantiate ''getrange'')\<rparr>"
proof -
  note built = RedisServiceImpl_new_Inr [OF assms]
  from assms built(1) RedisServiceImpl_new_ok [OF built(2), of addresses]
  have "metrics s0 =
      (\<lambda>k. if k \<in> set method_names then \<lparr>handler_latency = Some (Instantiate k)\<rparr>
           else \<lparr>handler_latency = None\<rparr>)
      (''error'' := \<lparr>handler_latency = Some (Instantiate ''error'')\<rparr>,
       ''get_internal'' := \<lparr>handler_latency = Some (Instantiate ''get_internal'')\<rparr>,
       ''set_internal'' := \<lparr>handler_latency = Some (Instantiate ''set_internal'')\<rparr>)"
    by auto
  then show "metrics s0 ''get'' = \<lparr>handler_latency = Some (Instantiate ''get'')\<rparr>"
    and "metrics s0 ''hget'' = \<lparr>handler_latency = Some (Instantiate ''hget'')\<rparr>"
    and "metrics s0 ''strlen'' = \<lparr>handler_latency = Some (Instantiate ''strlen'')\<rparr>"
    and "metrics s0 ''exists'' = \<lparr>handler_latency = Some (Instantiate ''exists'')\<rparr>"
    and "metrics s0 ''getrange'' = \<lparr>handler_latency = Some (Instantiate ''getrange'')\<rparr>"
    by (simp_all add: method_names_def)
qed

text \<open>
  C4. The completion object \<open>ReadCommand\<close> attaches retains the metric registered under
  the name its caller passes. On a service built by the constructor, \<open>GetCommand\<close>,
  \<open>HGetCommand\<close>, \<open>StrLenCommand\<close> and \<open>ExistsCommand\<close> pass their own names and
  their completion objects retain their own histograms. \<open>GetRangeCommand\<close> passes
  \<^verbatim>\<open>"exists"\<close>: its completion object retains the histogram of \<^verbatim>\<open>exists\<close>, which is
  not the histogram registered under \<^verbatim>\<open>getrange\<close>.
\<close>

theorem GetRangeCommand_retains_exists_metric:
  assumes "RedisServiceImpl_new k tbl addresses = Inr s0" and "metrics s = metrics s0"
  shows "(\<forall>evs session rop cb.
            GetRangeCommand e s call c = Inr evs \<and> ReadAsync session rop cb \<in> set evs \<longrightarrow>
            read_metrics cb = metrics s ''exists''
            \<and> handler_latency (read_metrics cb) = Some (Instantiate ''exists'')
            \<and> handler_latency (metrics s ''getrange'') = Some (Instantiate ''getrange'')
            \<and> read_metrics cb \<noteq> metrics s ''getrange'')
       \<and> (\<forall>evs session rop cb.
            GetCommand e s call c = Inr evs \<and> ReadAsync session rop cb \<in> set evs \<longrightarrow>
            handler_latency (read_metrics cb) = Some (Instantiate ''get''))
       \<and> (\<forall>evs session rop cb.
            HGetCommand e s call c = Inr evs \<and> ReadAsync session rop cb \<in> set evs \<longrightarrow>
            handler_latency (read_metrics cb) = Some (Instantiate ''hget''))
       \<and> (\<forall>evs session rop cb.
            StrLenCommand e s call c = Inr evs \<and> ReadAsync session rop cb \<in> set evs \<longrightarrow>
            handler_latency (read_metrics cb) = Some (Instantiate ''strlen''))
       \<and> (\<forall>evs session rop cb.
            ExistsCommand e s call c = Inr evs \<and> ReadAsync session rop cb \<in> set evs \<longrightarrow>
            handler_latency (read_metrics cb) = Some (Instantiate ''exists''))"
proof -
  note m = RedisServiceImpl_new_metrics [OF assms(1), folded assms(2)]
  have differ: "Instantiate ''exists'' \<noteq> Instantiate ''getrange''"
    by (simp add: Instantiate_def)
  have range: "read_metrics cb = metrics s ''exists''
            \<and> handler_latency (read_metrics cb) = Some (Instantiate ''exists'')
            \<and> handler_latency (metrics s ''getrange'') = Some (Instantiate ''getrange'')
            \<and> read_metrics cb \<noteq> metrics s ''getrange''"
    if "GetRangeCommand e s call c = Inr evs" and "ReadAsync session rop cb \<in> set evs"
    for evs session rop cb
    using ReadCommand_callback(1) [OF that [unfolded GetRangeCommand_def]] m(4,5) differ
    by auto
  have get: "handler_latency (read_metrics cb) = Some (Instantiate ''get'')"
    if "GetCommand e s call c = Inr evs" and "ReadAsync session rop cb \<in> set evs"
    for evs session rop cb
    using ReadCommand_callback(1) [OF that [unfolded GetCommand_def]] m(1) by simp
  have hget: "handler_latency (read_metrics cb) = Some (Instantiate ''hget'')"
    if "HGetCommand e s call c = Inr evs" and "ReadAsync session rop cb \<in> set evs"
    for evs session rop cb
    using ReadCommand_callback(1) [OF that [unfolded HGetCommand_def]] m(2) by simp
  have strlen: "handler_latency (read_metrics cb) = Some (Instantiate ''strlen'')"
    if "StrLenCommand e s call c = Inr evs" and "ReadAsync session rop cb \<in> set evs"
    for evs session rop cb
    using ReadCommand_callback(1) [OF that [unfolded StrLenCommand_def]] m(3) by simp
  have exists: "handler_latency (read_metrics cb) = Some (Instantiate ''exists'')"
    if "ExistsCommand e s call c = Inr evs" and "ReadAsync session rop cb \<in> set evs"
    for evs session rop cb
    using ReadCommand_callback(1) [OF that [unfolded ExistsCommand_def]] m(4) by simp
  show ?thesis
    using range get hget strlen exists by blast
qed

lemma sample_getrange:
  "GetRangeCommand sample_env sample_ready (sample_call [''getrange'', ''k'', ''0'', ''1''])
     \<lparr>cmd_args = [''getrange'', ''k'', ''0'', ''1'']\<rparr> =
   Inr [NewSession True, SetTimeoutMillis (YBSession True) 60000,
        SetFlushMode (YBSession True) MANUAL_FLUSH, NewRedisRead,
        ReadAsync (YBSession True)
          \<lparr>read_table = YBTable ''.redis'',
           redis_read_request = RedisReadRequestPB [''k'', ''0'', ''1''],
           read_redis_response = None\<rparr>
          \<lparr>read_session = Some (YBSession True),
           read_redis_call = sample_call [''getrange'', ''k'', ''0'', ''1''],
           read_op = \<lparr>read_table = YBTable ''.redis'',
                      redis_read_request = RedisReadRequestPB [''k'', ''0'', ''1''],
                      read_redis_response = None\<rparr>,
           read_metrics = \<lparr>handler_latency = Some (Instantiate ''exists'')\<rparr>,
           read_metrics_internal = \<lparr>handler_latency = Some (Instantiate ''get_internal'')\<rparr>,
           read_start = 1500\<rparr>]"
  by (simp add: GetRangeCommand_def ReadCommand_def after_def ConfigureSession_def sample_env_def
      sample_parse_read_def YBRedisReadOp_new_def sample_setup sample_metrics Let_def)

theorem GetRangeCommand_retains_exists_metric_witness:
  "RedisServiceImpl_new 13 sample_table ''127.0.0.1:7100'' = Inr sample_service
   \<and> metrics sample_ready = metrics sample_service
   \<and> (\<exists>evs session rop cb.
        GetRangeCommand sample_env sample_ready (sample_call [''getrange'', ''k'', ''0'', ''1''])
          \<lparr>cmd_args = [''getrange'', ''k'', ''0'', ''1'']\<rparr> = Inr evs
        \<and> ReadAsync session rop cb \<in> set evs
        \<and> handler_latency (read_metrics cb) = Some (Instantiate ''exists'')
        \<and> handler_latency (metrics sample_ready ''getrange'') = Some (Instantiate ''getrange'')
        \<and> read_metrics cb \<noteq> metrics sample_ready ''getrange'')"
proof -
  let ?call = "sample_call [''getrange'', ''k'', ''0'', ''1'']"
  let ?c = "\<lparr>cmd_args = [''getrange'', ''k'', ''0'', ''1'']\<rparr>"
  let ?rop = "\<lparr>read_table = YBTable ''.redis'',
           redis_read_request = RedisReadRequestPB [''k'', ''0'', ''1''],
           read_redis_response = None\<rparr>"
  let ?cb = "\<lparr>read_session = Some (YBSession True), read_redis_call = ?call,
           read_op = ?rop,
           read_metrics = \<lparr>handler_latency = Some (Instantiate ''exists'')\<rparr>,
           read_metrics_internal = \<lparr>handler_latency = Some (Instantiate ''get_internal'')\<rparr>,
           read_start = 1500\<rparr>"
  have mem: "ReadAsync (YBSession True) ?rop ?cb \<in>
      set [NewSession True, SetTimeoutMillis (YBSession True) 60000,
           SetFlushMode (YBSession True) MANUAL_FLUSH, NewRedisRead,
           ReadAsync (YBSession True) ?rop ?cb]"
    by simp
  from GetRangeCommand_retains_exists_metric
    [OF sample_new sample_setup(8), of sample_env ?call ?c] sample_getrange mem
  have "handler_latency (read_metrics ?cb) = Some (Instantiate ''exists'')
        \<and> handler_latency (metrics sample_ready ''getrange'') = Some (Instantiate ''getrange'')
        \<and> read_metrics ?cb \<noteq> metrics sample_ready ''getrange''"
    by blast
  with sample_new sample_setup(8) sample_getrange mem show ?thesis
    by blast
qed

subsection \<open>The completion callbacks of submitted operations\<close>

lemma WriteCommand_callback:
  assumes "WriteCommand e s call c command_name parse = Inr evs"
    and "FlushAsync session cb \<in> set evs"
  shows "write_metrics cb = metrics s command_name"
    and "write_metrics_internal cb = metrics s ''set_internal''"
    and "write_redis_call cb = call"
    and "write_session cb = Some session"
proof -
  obtain st wop' where p: "parse (YBRedisWriteOp_new (the (table s))) (cmd_args c) = (st, wop')"
    by (cases "parse (YBRedisWriteOp_new (the (table s))) (cmd_args c)") auto
  have "write_metrics cb = metrics s command_name
      \<and> write_metrics_internal cb = metrics s ''set_internal'' \<and> write_redis_call cb = call
      \<and> write_session cb = Some session"
  proof (cases "ok st")
    case True
    with assms p show ?thesis
      by (auto simp: WriteCommand_def after_def ConfigureSession_def Let_def
          split: option.splits if_splits)
  next
    case False
    with assms p show ?thesis
      by (auto simp: WriteCommand_def after_def ConfigureSession_def Let_def
          RespondWithFailure_def split: option.splits if_splits list.splits)
  qed
  then show "write_metrics cb = metrics s command_name"
    and "write_metrics_internal cb = metrics s ''set_internal''"
    and "write_redis_call cb = call"
    and "write_session cb = Some session"
    by simp_all
qed

lemma RedisServiceImpl_new_internal_metrics:
  assumes "RedisServiceImpl_new k tbl addresses = Inr s0"
  shows "metrics s0 ''get_internal'' = \<lparr>handler_latency = Some (Instantiate ''get_internal'')\<rparr>"
    and "metrics s0 ''set_internal'' = \<lparr>handler_latency = Some (Instantiate ''set_internal'')\<rparr>"
    and "metrics s0 ''error'' = \<lparr>handler_latency = Some (Instantiate ''error'')\<rparr>"
proof -
  note built = RedisServiceImpl_new_Inr [OF assms]
  from assms built(1) RedisServiceImpl_new_ok [OF built(2), of addresses]
  have "metrics s0 =
      (\<lambda>k. if k \<in> set method_names then \<lparr>handler_latency = Some (Instantiate k)\<rparr>
           else \<lparr>handler_latency = None\<rparr>)
      (''error'' := \<lparr>handler_latency = Some (Instantiate ''error'')\<rparr>,
       ''get_internal'' := \<lparr>handler_latency = Some (Instantiate ''get_internal'')\<rparr>,
       ''set_internal'' := \<lparr>handler_latency = Some (Instantiate ''set_internal'')\<rparr>)"
    by auto
  then show "metrics s0 ''get_internal'' = \<lparr>handler_latency = Some (Instantiate ''get_internal'')\<rparr>"
    and "metrics s0 ''set_internal'' = \<lparr>handler_latency = Some (Instantiate ''set_internal'')\<rparr>"
    and "metrics s0 ''error'' = \<lparr>handler_latency = Some (Instantiate ''error'')\<rparr>"
    by simp_all
qed

text \<open>
  C1. On a service built by the constructor, for a command whose operation the read or
  the write pipeline has submitted (the trace of \<open>ReadCommand\<close> holds the \<open>ReadAsync\<close>,
  that of \<open>WriteCommand\<close> the \<open>FlushAsync\<close>, with the completion object \<open>cb\<close>), one run
  of the completion callback returns and sends exactly one response, to the call the command
  came with: respond-success with the response of the operation when the backend status is
  OK, respond-failure with that status otherwise. \<open>rop'\<close> and \<open>wop'\<close> are the operations
  as the backend left them: on an OK status their response slot is filled.
\<close>

theorem completion_sends_exactly_one_response:
  assumes "RedisServiceImpl_new k tbl addresses = Inr s0" and "metrics s = metrics s0"
    and "ok st \<longrightarrow> read_redis_response rop' = Some a \<and> a < length h"
    and "ok st \<longrightarrow> write_redis_response wop' = Some b \<and> b < length h"
  shows "(\<forall>evs session rop cb.
            ReadCommand e s call c rname rparse = Inr evs
            \<and> ReadAsync session rop cb \<in> set evs \<longrightarrow>
            (\<exists>out. ReadCommandCb_Run e' h (cb\<lparr>read_op := rop'\<rparr>) st = Inr out
               \<and> filter is_response out =
                   [if ok st then RespondSuccess call (h ! a) (metrics s rname)
                    else RespondFailure call st (metrics s rname)]))
       \<and> (\<forall>evs session cb.
            WriteCommand e s call c wname wparse = Inr evs
            \<and> FlushAsync session cb \<in> set evs \<longrightarrow>
            (\<exists>out. WriteCommandCb_Run e' h (cb\<lparr>write_op := wop'\<rparr>) st = Inr out
               \<and> filter is_response out =
                   [if ok st then RespondSuccess call (h ! b) (metrics s wname)
                    else RespondFailure call st (metrics s wname)]))"
proof -
  note m = RedisServiceImpl_new_internal_metrics [OF assms(1), folded assms(2)]
  have rd: "\<exists>out. ReadCommandCb_Run e' h (cb\<lparr>read_op := rop'\<rparr>) st = Inr out
               \<and> filter is_response out =
                   [if ok st then RespondSuccess call (h ! a) (metrics s rname)
                    else RespondFailure call st (metrics s rname)]"
    if sub: "ReadCommand e s call c rname rparse = Inr evs"
      "ReadAsync session rop cb \<in> set evs" for evs session rop cb
  proof -
    note cb = ReadCommand_callback [OF sub]
    let ?cb = "cb\<lparr>read_op := rop'\<rparr>"
    have hist: "handler_latency (read_metrics_internal ?cb) = Some (Instantiate ''get_internal'')"
      by (simp add: cb(2) m(1))
    show ?thesis
    proof (cases "ok st")
      case True
      with assms(3) have "read_redis_response (read_op ?cb) = Some a" and "a < length h"
        by simp_all
      from ReadCommandCb_Run_ok [OF hist this True, of e'] True cb(1,3)
      show ?thesis by simp
    next
      case False
      from ReadCommandCb_Run_not_ok [OF hist False, of e' h] False cb(1,3)
      show ?thesis by simp
    qed
  qed
  have wr: "\<exists>out. WriteCommandCb_Run e' h (cb\<lparr>write_op := wop'\<rparr>) st = Inr out
               \<and> filter is_response out =
                   [if ok st then RespondSuccess call (h ! b) (metrics s wname)
                    else RespondFailure call st (metrics s wname)]"
    if sub: "WriteCommand e s call c wname wparse = Inr evs"
      "FlushAsync session cb \<in> set evs" for evs session cb
  proof -
    note cb = WriteCommand_callback [OF sub]
    let ?cb = "cb\<lparr>write_op := wop'\<rparr>"
    have hist: "handler_latency (write_metrics_internal ?cb) = Some (Instantiate ''set_internal'')"
      by (simp add: cb(2) m(2))
    show ?thesis
    proof (cases "ok st")
      case True
      with assms(4) have "write_redis_response (write_op ?cb) = Some b" and "b < length h"
        by simp_all
      from WriteCommandCb_Run_ok [OF hist this True, of e'] True cb(1,3)
      show ?thesis by simp
    next
      case False
      from WriteCommandCb_Run_not_ok [OF hist False, of e' h] False cb(1,3,4)
      show ?thesis by (simp add: filter_LogWarning)
    qed
  qed
  show ?thesis
    using rd wr by blast
qed

lemma sample_read_get:
  "ReadCommand sample_env sample_ready (sample_call [''get'', ''k''])
     \<lparr>cmd_args = [''get'', ''k'']\<rparr> ''get'' sample_parse_read =
   Inr [NewSession True, SetTimeoutMillis (YBSession True) 60000,
        SetFlushMode (YBSession True) MANUAL_FLUSH, NewRedisRead,
        ReadAsync (YBSession True)
          \<lparr>read_table = YBTable ''.redis'', redis_read_request = RedisReadRequestPB [''k''],
           read_redis_response = None\<rparr>
          \<lparr>read_session = Some (YBSession True),
           read_redis_call = sample_call [''get'', ''k''],
           read_op = \<lparr>read_table = YBTable ''.redis'',
                      redis_read_request = RedisReadRequestPB [''k''],
                      read_redis_response = None\<rparr>,
           read_metrics = \<lparr>handler_latency = Some (Instantiate ''get'')\<rparr>,
           read_metrics_internal = \<lparr>handler_latency = Some (Instantiate ''get_internal'')\<rparr>,
           read_start = 1500\<rparr>]"
  by (simp add: ReadCommand_def after_def ConfigureSession_def sample_env_def
      sample_parse_read_def YBRedisReadOp_new_def sample_setup sample_metrics Let_def)

lemma sample_write_set:
  "WriteCommand sample_env sample_ready (sample_call [''set'', ''k'', ''v''])
     \<lparr>cmd_args = [''set'', ''k'', ''v'']\<rparr> ''set'' sample_parse_write =
   Inr [NewSession False, SetTimeoutMillis (YBSession False) 60000,
        SetFlushMode (YBSession False) MANUAL_FLUSH, NewRedisWrite,
        Apply (YBSession False)
          \<lparr>write_table = YBTable ''.redis'',
           redis_write_request = RedisWriteRequestPB [''k'', ''v''],
           write_redis_response = None\<rparr>,
        FlushAsync (YBSession False)
          \<lparr>write_session = Some (YBSession False),
           write_redis_call = sample_call [''set'', ''k'', ''v''],
           write_op = \<lparr>write_table = YBTable ''.redis'',
                       redis_write_request = RedisWriteRequestPB [''k'', ''v''],
                       write_redis_response = None\<rparr>,
           write_metrics = \<lparr>handler_latency = Some (Instantiate ''set'')\<rparr>,
           write_metrics_internal = \<lparr>handler_latency = Some (Instantiate ''set_internal'')\<rparr>,
           write_start = 1500\<rparr>]"
  by (simp add: WriteCommand_def after_def ConfigureSession_def sample_env_def
      sample_parse_write_def YBRedisWriteOp_new_def sample_setup sample_metrics Let_def)

theorem completion_sends_exactly_one_response_witness:
  "RedisServiceImpl_new 13 sample_table ''127.0.0.1:7100'' = Inr sample_service
   \<and> metrics sample_ready = metrics sample_service
   \<and> ok OK
   \<and> read_redis_response (read_op sample_read_cb) = Some 0
   \<and> write_redis_response (write_op sample_write_cb) = Some 0
   \<and> 0 < length sample_store
   \<and> (\<exists>evs session rop cb.
        ReadCommand sample_env sample_ready (sample_call [''get'', ''k''])
          \<lparr>cmd_args = [''get'', ''k'']\<rparr> ''get'' sample_parse_read = Inr evs
        \<and> ReadAsync session rop cb \<in> set evs
        \<and> (\<exists>out. ReadCommandCb_Run (sample_env\<lparr>env_Now := 2000\<rparr>) sample_store
                    (cb\<lparr>read_op := read_op sample_read_cb\<rparr>) OK = Inr out
              \<and> filter is_response out =
                  [RespondSuccess (sample_call [''get'', ''k''])
                     \<lparr>string_response = Some ''v''\<rparr>
                     \<lparr>handler_latency = Some (Instantiate ''get'')\<rparr>]))
   \<and> (\<exists>evs session cb.
        WriteCommand sample_env sample_ready (sample_call [''set'', ''k'', ''v''])
          \<lparr>cmd_args = [''set'', ''k'', ''v'']\<rparr> ''set'' sample_parse_write = Inr evs
        \<and> FlushAsync session cb \<in> set evs
        \<and> (\<exists>out. WriteCommandCb_Run (sample_env\<lparr>env_Now := 2000\<rparr>) sample_store
                    (cb\<lparr>write_op := write_op sample_write_cb\<rparr>) OK = Inr out
              \<and> filter is_response out =
                  [RespondSuccess (sample_call [''set'', ''k'', ''v''])
                     \<lparr>string_response = Some ''v''\<rparr>
                     \<lparr>handler_latency = Some (Instantiate ''set'')\<rparr>]))"
proof -
  have r: "ok OK \<longrightarrow> read_redis_response (read_op sample_read_cb) = Some 0 \<and> 0 < length sample_store"
    by (simp add: sample_read_cb_def sample_store_def)
  have w: "ok OK \<longrightarrow> write_redis_response (write_op sample_write_cb) = Some 0 \<and> 0 < length sample_store"
    by (simp add: sample_write_cb_def sample_store_def)
  have v: "sample_store ! 0 = \<lparr>string_response = Some ''v''\<rparr>"
    by (simp add: sample_store_def)
  have mg: "metrics sample_ready ''get'' = \<lparr>handler_latency = Some (Instantiate ''get'')\<rparr>"
    "metrics sample_ready ''set'' = \<lparr>handler_latency = Some (Instantiate ''set'')\<rparr>"
    by (simp_all add: sample_setup sample_metrics)
  note t1 = completion_sends_exactly_one_response
    [OF sample_new sample_setup(8) r w,
     where e = sample_env and call = "sample_call [''get'', ''k'']"
       and c = "\<lparr>cmd_args = [''get'', ''k'']\<rparr>" and rname = "''get''"
       and rparse = sample_parse_read and wname = "''set''" and wparse = sample_parse_write
       and e' = "sample_env\<lparr>env_Now := 2000\<rparr>"]
  note t2 = completion_sends_exactly_one_response
    [OF sample_new sample_setup(8) r w,
     where e = sample_env and call = "sample_call [''set'', ''k'', ''v'']"
       and c = "\<lparr>cmd_args = [''set'', ''k'', ''v'']\<rparr>" and wname = "''set''"
       and wparse = sample_parse_write and rname = "''get''" and rparse = sample_parse_read
       and e' = "sample_env\<lparr>env_Now := 2000\<rparr>"]
  from t1 have rd: "\<forall>evs session rop cb.
        ReadCommand sample_env sample_ready (sample_call [''get'', ''k''])
          \<lparr>cmd_args = [''get'', ''k'']\<rparr> ''get'' sample_parse_read = Inr evs
        \<and> ReadAsync session rop cb \<in> set evs \<longrightarrow>
        (\<exists>out. ReadCommandCb_Run (sample_env\<lparr>env_Now := 2000\<rparr>) sample_store
                    (cb\<lparr>read_op := read_op sample_read_cb\<rparr>) OK = Inr out
              \<and> filter is_response out =
                  [RespondSuccess (sample_call [''get'', ''k''])
                     \<lparr>string_response = Some ''v''\<rparr>
                     \<lparr>handler_latency = Some (Instantiate ''get'')\<rparr>])"
    by (simp add: v mg) blast
  from t2 have wr: "\<forall>evs session cb.
        WriteCommand sample_env sample_ready (sample_call [''set'', ''k'', ''v''])
          \<lparr>cmd_args = [''set'', ''k'', ''v'']\<rparr> ''set'' sample_parse_write = Inr evs
        \<and> FlushAsync session cb \<in> set evs \<longrightarrow>
        (\<exists>out. WriteCommandCb_Run (sample_env\<lparr>env_Now := 2000\<rparr>) sample_store
                    (cb\<lparr>write_op := write_op sample_write_cb\<rparr>) OK = Inr out
              \<and> filter is_response out =
                  [RespondSuccess (sample_call [''set'', ''k'', ''v''])
                     \<lparr>string_response = Some ''v''\<rparr>
                     \<lparr>handler_latency = Some (Instantiate ''set'')\<rparr>])"
    by (simp add: v mg) blast
  have rsub: "\<exists>evs session rop cb.
        ReadCommand sample_env sample_ready (sample_call [''get'', ''k''])
          \<lparr>cmd_args = [''get'', ''k'']\<rparr> ''get'' sample_parse_read = Inr evs
        \<and> ReadAsync session rop cb \<in> set evs"
    unfolding sample_read_get by auto
  have wsub: "\<exists>evs session cb.
        WriteCommand sample_env sample_ready (sample_call [''set'', ''k'', ''v''])
          \<lparr>cmd_args = [''set'', ''k'', ''v'']\<rparr> ''set'' sample_parse_write = Inr evs
        \<and> FlushAsync session cb \<in> set evs"
    unfolding sample_write_set by auto
  from r w have facts: "ok OK" "read_redis_response (read_op sample_read_cb) = Some 0"
    "write_redis_response (write_op sample_write_cb) = Some 0" "0 < length sample_store"
    by simp_all
  from rd rsub have c1: "\<exists>evs session rop cb.
        ReadCommand sample_env sample_ready (sample_call [''get'', ''k''])
          \<lparr>cmd_args = [''get'', ''k'']\<rparr> ''get'' sample_parse_read = Inr evs
        \<and> ReadAsync session rop cb \<in> set evs
        \<and> (\<exists>out. ReadCommandCb_Run (sample_env\<lparr>env_Now := 2000\<rparr>) sample_store
                    (cb\<lparr>read_op := read_op sample_read_cb\<rparr>) OK = Inr out
              \<and> filter is_response out =
                  [RespondSuccess (sample_call [''get'', ''k''])
                     \<lparr>string_response = Some ''v''\<rparr>
                     \<lparr>handler_latency = Some (Instantiate ''get'')\<rparr>])"
    by blast
  from wr wsub have c2: "\<exists>evs session cb.
        WriteCommand sample_env sample_ready (sample_call [''set'', ''k'', ''v''])
          \<lparr>cmd_args = [''set'', ''k'', ''v'']\<rparr> ''set'' sample_parse_write = Inr evs
        \<and> FlushAsync session cb \<in> set evs
        \<and> (\<exists>out. WriteCommandCb_Run (sample_env\<lparr>env_Now := 2000\<rparr>) sample_store
                    (cb\<lparr>write_op := write_op sample_write_cb\<rparr>) OK = Inr out
              \<and> filter is_response out =
                  [RespondSuccess (sample_call [''set'', ''k'', ''v''])
                     \<lparr>string_response = Some ''v''\<rparr>
                     \<lparr>handler_latency = Some (Instantiate ''set'')\<rparr>])"
    by blast
  from sample_new sample_setup(8) facts c1 c2 show ?thesis
    by blast
qed

text \<open>
  C7. On a service built by the constructor, for a write command whose flush has been
  submitted, the completion callback on a status that is not OK queries the pending errors
  of the session of the command and logs each as a warning before it sends the failure
  response. The response is the failure with the top-level status alone: whatever errors
  the session holds, the one response event is the same.
\<close>

theorem write_failure_logs_pending_errors:
  assumes "RedisServiceImpl_new k tbl addresses = Inr s0" and "metrics s = metrics s0"
    and "WriteCommand e s call c wname wparse = Inr evs"
    and "FlushAsync session cb \<in> set evs"
    and "\<not> ok st"
    and "env_GetPendingErrors e' session = (errors, overflowed)"
  shows "WriteCommandCb_Run e' h (cb\<lparr>write_op := wop'\<rparr>) st =
           Inr ([Increment (Instantiate ''set_internal'') (env_Now e' - env_Now e),
                 GetPendingErrors session]
                @ map (\<lambda>error. LogWarning (''Explicit error while inserting: ''
                         @ env_ToString e' (status error))) errors
                @ [RespondFailure call st (metrics s wname)])
       \<and> (\<forall>e2. \<exists>out. WriteCommandCb_Run e2 h (cb\<lparr>write_op := wop'\<rparr>) st = Inr out
             \<and> filter is_response out = [RespondFailure call st (metrics s wname)])"
proof -
  note m = RedisServiceImpl_new_internal_metrics [OF assms(1), folded assms(2)]
  note cb = WriteCommand_callback [OF assms(3,4)]
  let ?cb = "cb\<lparr>write_op := wop'\<rparr>"
  have hist: "handler_latency (write_metrics_internal ?cb) = Some (Instantiate ''set_internal'')"
    by (simp add: cb(2) m(2))
  have start: "write_start cb = env_Now e"
  proof -
    obtain pst wop2 where p: "wparse (YBRedisWriteOp_new (the (table s))) (cmd_args c) = (pst, wop2)"
      by (cases "wparse (YBRedisWriteOp_new (the (table s))) (cmd_args c)") auto
    show ?thesis
    proof (cases "ok pst")
      case True
      with assms(3,4) p show ?thesis
        by (auto simp: WriteCommand_def after_def ConfigureSession_def Let_def
            split: option.splits if_splits)
    next
      case False
      with assms(3,4) p show ?thesis
        by (auto simp: WriteCommand_def after_def ConfigureSession_def Let_def
            RespondWithFailure_def split: option.splits if_splits list.splits)
    qed
  qed
  have run: "WriteCommandCb_Run e2 h ?cb st =
     Inr (Increment (Instantiate ''set_internal'') (env_Now e2 - env_Now e)
          # (GetPendingErrors session
             # map (\<lambda>error. LogWarning (''Explicit error while inserting: ''
                      @ env_ToString e2 (status error)))
                 (fst (env_GetPendingErrors e2 session)))
          @ [RespondFailure call st (metrics s wname)])" for e2
    using WriteCommandCb_Run_not_ok [OF hist assms(5), of e2 h] cb(1,3,4) start
    by simp
  have one: "\<exists>out. WriteCommandCb_Run e2 h ?cb st = Inr out
             \<and> filter is_response out = [RespondFailure call st (metrics s wname)]" for e2
    unfolding run by (simp add: filter_LogWarning)
  have this_run: "WriteCommandCb_Run e' h ?cb st =
           Inr ([Increment (Instantiate ''set_internal'') (env_Now e' - env_Now e),
                 GetPendingErrors session]
                @ map (\<lambda>error. LogWarning (''Explicit error while inserting: ''
                         @ env_ToString e' (status error))) errors
                @ [RespondFailure call st (metrics s wname)])"
    unfolding run using assms(6) by simp
  show ?thesis
    using this_run one by blast
qed


theorem write_failure_logs_pending_errors_witness:
  "RedisServiceImpl_new 13 sample_table ''127.0.0.1:7100'' = Inr sample_service
   \<and> metrics sample_ready = metrics sample_service
   \<and> \<not> ok (STATUS ''TimedOut'' ''flush timed out'')
   \<and> (\<exists>evs session cb.
        WriteCommand sample_env sample_ready (sample_call [''set'', ''k'', ''v''])
          \<lparr>cmd_args = [''set'', ''k'', ''v'']\<rparr> ''set'' sample_parse_write = Inr evs
        \<and> FlushAsync session cb \<in> set evs
        \<and> WriteCommandCb_Run (sample_env\<lparr>env_Now := 2000\<rparr>) sample_store
             (cb\<lparr>write_op := write_op sample_write_cb\<rparr>)
             (STATUS ''TimedOut'' ''flush timed out'') =
           Inr [Increment (Instantiate ''set_internal'') 500,
                GetPendingErrors (YBSession False),
                LogWarning ''Explicit error while inserting: TimedOut: row 1'',
                LogWarning ''Explicit error while inserting: TimedOut: row 2'',
                RespondFailure (sample_call [''set'', ''k'', ''v''])
                  (STATUS ''TimedOut'' ''flush timed out'')
                  \<lparr>handler_latency = Some (Instantiate ''set'')\<rparr>])"
proof -
  let ?st = "STATUS ''TimedOut'' ''flush timed out''"
  let ?e' = "sample_env\<lparr>env_Now := 2000\<rparr>"
  let ?cb = "\<lparr>write_session = Some (YBSession False),
           write_redis_call = sample_call [''set'', ''k'', ''v''],
           write_op = \<lparr>write_table = YBTable ''.redis'',
                       redis_write_request = RedisWriteRequestPB [''k'', ''v''],
                       write_redis_response = None\<rparr>,
           write_metrics = \<lparr>handler_latency = Some (Instantiate ''set'')\<rparr>,
           write_metrics_internal = \<lparr>handler_latency = Some (Instantiate ''set_internal'')\<rparr>,
           write_start = 1500\<rparr>"
  have n: "\<not> ok ?st" by simp
  have mem: "FlushAsync (YBSession False) ?cb \<in>
      set [NewSession False, SetTimeoutMillis (YBSession False) 60000,
        SetFlushMode (YBSession False) MANUAL_FLUSH, NewRedisWrite,
        Apply (YBSession False)
          \<lparr>write_table = YBTable ''.redis'',
           redis_write_request = RedisWriteRequestPB [''k'', ''v''],
           write_redis_response = None\<rparr>,
        FlushAsync (YBSession False) ?cb]"
    by simp
  have p: "env_GetPendingErrors ?e' (YBSession False) =
      ([YBError (STATUS ''TimedOut'' ''row 1''), YBError (STATUS ''TimedOut'' ''row 2'')], False)"
    by (simp add: sample_env_def)
  have mg: "metrics sample_ready ''set'' = \<lparr>handler_latency = Some (Instantiate ''set'')\<rparr>"
    by (simp add: sample_setup sample_metrics)
  from write_failure_logs_pending_errors
    [OF sample_new sample_setup(8) sample_write_set mem n p,
     of sample_store "write_op sample_write_cb"]
  have run: "WriteCommandCb_Run ?e' sample_store (?cb\<lparr>write_op := write_op sample_write_cb\<rparr>) ?st =
           Inr [Increment (Instantiate ''set_internal'') 500,
                GetPendingErrors (YBSession False),
                LogWarning ''Explicit error while inserting: TimedOut: row 1'',
                LogWarning ''Explicit error while inserting: TimedOut: row 2'',
                RespondFailure (sample_call [''set'', ''k'', ''v'']) ?st
                  \<lparr>handler_latency = Some (Instantiate ''set'')\<rparr>]"
    by (simp add: sample_env_def sample_ToString_def mg)
  from sample_new sample_setup(8) n sample_write_set mem run show ?thesis
    by blast
qed

end
